theory Spec2Isabelle
  imports Main "HOL-Library.Multiset"
begin

section \<open>The store: users, groups, skip weeks, rotations\<close>

text \<open>
  The server keeps one global object \<^verbatim>\<open>data = { users, groups, skipWeeks, rotations }\<close>
  and writes it to \<^verbatim>\<open>data.json\<close>. Identifiers and dates are JavaScript strings,
  \<^verbatim>\<open>orderPosition\<close> and \<^verbatim>\<open>currentIndex\<close> are JavaScript numbers that only ever hold
  integers here, so they are \<open>int\<close>. A missing \<^verbatim>\<open>calendarEventId\<close> is the empty string:
  the only test the code makes on it is truthiness, and \<^verbatim>\<open>undefined\<close>, \<^verbatim>\<open>null\<close> and
  \<^verbatim>\<open>''\<close> are all falsy.
\<close>

record tokens =
  access_token :: string
  refresh_token :: string
  expiry_date :: int

record user =
  u_id :: string
  email :: string
  name :: string
  googleTokens :: "tokens option"

record member =
  userId :: string
  orderPosition :: int

record slot =
  dayOfWeek :: int
  timeOfDay :: string

record rgroup =
  g_id :: string
  g_name :: string
  description :: string
  members :: "member list"
  schedule :: slot
  currentIndex :: int
  isActive :: bool

record skipWeek =
  s_id :: string
  s_userId :: string
  s_groupId :: string
  s_weekStartDate :: string
  reason :: string
  s_createdAt :: string

record rotation =
  r_id :: string
  r_groupId :: string
  assignedUserId :: string
  r_weekStartDate :: string
  calendarEventId :: string
  status :: string
  createdAt :: string
  swappedAt :: "string option"

record store =
  users :: "user list"
  groups :: "rgroup list"
  skipWeeks :: "skipWeek list"
  rotations :: "rotation list"

text \<open>
  Every \<^verbatim>\<open>throw\<close> of the server and every rejection of an awaited external call is a
  value: \<open>GroupNotFound\<close> is \<^verbatim>\<open>'Group not found'\<close>, \<open>EmptyGroup\<close> is
  \<^verbatim>\<open>'Group has no members'\<close>, \<open>AllSkipped\<close> is \<^verbatim>\<open>'All users have skip weeks'\<close>,
  \<open>Unauthenticated\<close> is \<^verbatim>\<open>'User not authenticated'\<close>, \<open>RotationNotFound\<close> is the 404 of
  the swap and cancel handlers, \<open>UserAlreadyInGroup\<close> the 400 of the handler that adds a
  member. \<open>RefreshFailure\<close>, \<open>ExternalSyncFailure\<close> and
  \<open>SaveFailure\<close> are the rejections of \<^verbatim>\<open>refreshAccessToken\<close>, of the calendar calls and
  of \<^verbatim>\<open>fs.writeFile\<close>. \<open>TypeError\<close> is what JavaScript raises on reading a property of
  \<^verbatim>\<open>undefined\<close>, \<open>RangeError\<close> what \<^verbatim>\<open>toISOString\<close> raises on an invalid date.
\<close>

datatype error =
    GroupNotFound
  | EmptyGroup
  | AllSkipped
  | Unauthenticated
  | RotationNotFound
  | UserAlreadyInGroup
  | RefreshFailure
  | ExternalSyncFailure
  | SaveFailure
  | TypeError
  | RangeError

section \<open>JavaScript primitives used by the selector\<close>

text \<open>
  \<^verbatim>\<open>a % n\<close> for a positive length \<open>n\<close>: the remainder takes the sign of the dividend.
\<close>

definition jsRem :: "int \<Rightarrow> nat \<Rightarrow> int" where
  "jsRem a n = (if a < 0 then - ((- a) mod int n) else a mod int n)"

text \<open>
  \<^verbatim>\<open>xs[i]\<close>: \<^verbatim>\<open>undefined\<close> (here \<open>None\<close>) outside the array.
\<close>

definition jsIndex :: "'a list \<Rightarrow> int \<Rightarrow> 'a option" where
  "jsIndex xs i = (if 0 \<le> i \<and> i < int (length xs) then Some (xs ! nat i) else None)"

text \<open>
  \<^verbatim>\<open>xs.find(p)\<close> returns the first match and the handlers then mutate that object in
  place; \<open>updateFirst\<close> is that mutation on the list.
\<close>

fun updateFirst :: "('a \<Rightarrow> bool) \<Rightarrow> ('a \<Rightarrow> 'a) \<Rightarrow> 'a list \<Rightarrow> 'a list" where
  "updateFirst p f [] = []"
| "updateFirst p f (x # xs) = (if p x then f x # xs else x # updateFirst p f xs)"

section \<open>Rotation algorithm: getNextRotationAssignment\<close>

definition hasSkip :: "skipWeek list \<Rightarrow> string \<Rightarrow> string \<Rightarrow> string \<Rightarrow> bool" where
  "hasSkip skips uid groupId targetWeekDate =
     list_ex (\<lambda>skip. s_userId skip = uid \<and> s_groupId skip = groupId
                      \<and> s_weekStartDate skip = targetWeekDate) skips"

definition sortedMembers :: "rgroup \<Rightarrow> member list" where
  "sortedMembers g = sort_key orderPosition (members g)"

text \<open>
  The \<^verbatim>\<open>while (attempts < sortedMembers.length)\<close> loop. It returns the final
  \<^verbatim>\<open>assignedUserId\<close> (\<open>None\<close> for \<^verbatim>\<open>null\<close>) and \<^verbatim>\<open>currentIndex\<close>; reading
  \<^verbatim>\<open>candidate.userId\<close> of an \<^verbatim>\<open>undefined\<close> candidate raises. The index is an
  integer; the JavaScript number agrees with it below \<open>2^53\<close>, far above every cursor
  the server writes.
\<close>

function scanLoop ::
  "member list \<Rightarrow> skipWeek list \<Rightarrow> string \<Rightarrow> string \<Rightarrow> int \<Rightarrow> nat \<Rightarrow> error + (string option \<times> int)"
where
  "scanLoop sm skips groupId targetWeekDate ci attempts =
     (if attempts < length sm then
        (case jsIndex sm (jsRem ci (length sm)) of
           None \<Rightarrow> Inl TypeError
         | Some candidate \<Rightarrow>
             if hasSkip skips (userId candidate) groupId targetWeekDate
             then scanLoop sm skips groupId targetWeekDate (ci + 1) (attempts + 1)
             else Inr (Some (userId candidate), ci))
      else Inr (None, ci))"
  by pat_completeness auto
termination
  by (relation "measure (\<lambda>(sm, skips, groupId, targetWeekDate, ci, attempts). length sm - attempts)") auto

declare scanLoop.simps [simp del]

text \<open>
  \<^verbatim>\<open>!assignedUserId\<close> holds for \<^verbatim>\<open>null\<close> and for the empty string.
\<close>

definition falsyId :: "string option \<Rightarrow> bool" where
  "falsyId a = (case a of None \<Rightarrow> True | Some s \<Rightarrow> s = [])"

definition isGroup :: "string \<Rightarrow> rgroup \<Rightarrow> bool" where
  "isGroup groupId g = (g_id g = groupId)"

text \<open>
  The function reads and writes the global \<^verbatim>\<open>data\<close>; the model takes the store and
  returns it, also when it throws, so that "no mutation" is a statement about the
  returned store. On success it returns \<^verbatim>\<open>{ userId, weekStartDate }\<close>.
\<close>

definition getNextRotationAssignment ::
  "store \<Rightarrow> string \<Rightarrow> string \<Rightarrow> (error + (string \<times> string)) \<times> store"
where
  "getNextRotationAssignment d groupId targetWeekDate =
     (case find (isGroup groupId) (groups d) of
        None \<Rightarrow> (Inl GroupNotFound, d)
      | Some g \<Rightarrow>
          if members g = [] then (Inl EmptyGroup, d)
          else
            (case scanLoop (sortedMembers g) (skipWeeks d) groupId targetWeekDate (currentIndex g) 0 of
               Inl e \<Rightarrow> (Inl e, d)
             | Inr (assigned, ci) \<Rightarrow>
                 if falsyId assigned then (Inl AllSkipped, d)
                 else
                   (Inr (the assigned, targetWeekDate),
                    d\<lparr>groups :=
                        updateFirst (isGroup groupId)
                          (\<lambda>group. group\<lparr>currentIndex := jsRem (ci + 1) (length (sortedMembers g))\<rparr>)
                          (groups d)\<rparr>)))"

section \<open>The outside world: OAuth client, calendar API, file system, clock\<close>

text \<open>
  The resource sent to \<^verbatim>\<open>calendar.events.insert\<close>. \<open>overrides\<close> holds the pairs
  (method, minutes before the start).
\<close>

record calEvent =
  summary :: string
  ev_description :: string
  startDateTime :: string
  startTimeZone :: string
  endDateTime :: string
  endTimeZone :: string
  useDefault :: bool
  overrides :: "(string \<times> nat) list"

text \<open>
  Every awaited external call is recorded, in order, with its arguments: the token
  refresh, the write of \<^verbatim>\<open>data.json\<close>, the insertion and the deletion of a calendar
  event (with the credentials set on the OAuth client at that moment).
\<close>

datatype call =
    Refresh tokens
  | Save store
  | Insert tokens calEvent
  | Delete tokens string

text \<open>
  The collaborators are parameters. Each answer may depend on all calls issued so far,
  so a call can succeed once and fail later; \<open>None\<close> and \<open>False\<close> are a rejected
  promise. \<open>dateNow\<close> is \<^verbatim>\<open>Date.now()\<close> and the value of \<^verbatim>\<open>new Date()\<close> in
  milliseconds, \<open>isoNow\<close> is \<^verbatim>\<open>new Date().toISOString()\<close>; the clock is read as a
  function of the calls issued so far, so it may advance across every \<^verbatim>\<open>await\<close>.
  \<open>dateParse\<close> is the value of \<^verbatim>\<open>new Date(string)\<close> in milliseconds, \<open>None\<close> for an
  invalid date. \<open>generateId\<close>, \<open>addWeeks\<close> and \<open>getWeekStartDate\<close> are the
  server's helpers of these names, which depend on the clock, the time zone and
  \<^verbatim>\<open>Math.random\<close>; \<open>addWeeks\<close> is \<open>None\<close> where its \<^verbatim>\<open>toISOString\<close> raises.
\<close>

record ext =
  refreshAccessToken :: "call list \<Rightarrow> tokens \<Rightarrow> tokens option"
  eventsInsert :: "call list \<Rightarrow> tokens \<Rightarrow> calEvent \<Rightarrow> string option"
  eventsDelete :: "call list \<Rightarrow> tokens \<Rightarrow> string \<Rightarrow> bool"
  writeFile :: "call list \<Rightarrow> store \<Rightarrow> bool"
  dateNow :: "call list \<Rightarrow> int"
  isoNow :: "call list \<Rightarrow> string"
  dateParse :: "string \<Rightarrow> int option"
  generateId :: "call list \<Rightarrow> string \<Rightarrow> string"
  addWeeks :: "string \<Rightarrow> nat \<Rightarrow> string option"
  getWeekStartDate :: "call list \<Rightarrow> string"

text \<open>
  The state of the server: the global \<^verbatim>\<open>data\<close>, the content of \<^verbatim>\<open>data.json\<close>, and
  the external calls made so far.
\<close>

record state =
  data :: store
  disk :: store
  calls :: "call list"

definition saveData :: "ext \<Rightarrow> state \<Rightarrow> (error + unit) \<times> state" where
  "saveData x s =
     (if writeFile x (calls s) (data s)
      then (Inr (), s\<lparr>disk := data s, calls := calls s @ [Save (data s)]\<rparr>)
      else (Inl SaveFailure, s\<lparr>calls := calls s @ [Save (data s)]\<rparr>))"

section \<open>JavaScript string primitives used to build the event\<close>

definition isWhite :: "char \<Rightarrow> bool" where
  "isWhite c = (c \<in> set [CHR '' '', CHR 0x09, CHR 0x0A, CHR 0x0B, CHR 0x0C, CHR 0x0D])"

definition hexDigits :: "(char \<times> nat) list" where
  "hexDigits =
     [(CHR ''0'', 0), (CHR ''1'', 1), (CHR ''2'', 2), (CHR ''3'', 3), (CHR ''4'', 4),
      (CHR ''5'', 5), (CHR ''6'', 6), (CHR ''7'', 7), (CHR ''8'', 8), (CHR ''9'', 9),
      (CHR ''a'', 10), (CHR ''b'', 11), (CHR ''c'', 12), (CHR ''d'', 13), (CHR ''e'', 14),
      (CHR ''f'', 15), (CHR ''A'', 10), (CHR ''B'', 11), (CHR ''C'', 12), (CHR ''D'', 13),
      (CHR ''E'', 14), (CHR ''F'', 15)]"

definition digitIn :: "nat \<Rightarrow> char \<Rightarrow> nat option" where
  "digitIn radix c =
     (case map_of hexDigits c of
        None \<Rightarrow> None
      | Some v \<Rightarrow> if v < radix then Some v else None)"

text \<open>
  The value of the longest prefix of digits, with the number of digits read.
\<close>

fun readDigits :: "nat \<Rightarrow> string \<Rightarrow> nat \<Rightarrow> nat \<Rightarrow> nat \<times> nat" where
  "readDigits radix [] acc cnt = (acc, cnt)"
| "readDigits radix (c # cs) acc cnt =
     (case digitIn radix c of
        None \<Rightarrow> (acc, cnt)
      | Some v \<Rightarrow> readDigits radix cs (acc * radix + v) (cnt + 1))"

text \<open>
  \<^verbatim>\<open>parseInt(s)\<close> with no radix: leading white space, an optional sign, an optional
  \<^verbatim>\<open>0x\<close> prefix, then the longest prefix of digits; \<open>None\<close> is \<^verbatim>\<open>NaN\<close>.
\<close>

definition parseInt :: "string \<Rightarrow> int option" where
  "parseInt s =
     (let t = dropWhile isWhite s;
          neg = (case t of c # _ \<Rightarrow> c = CHR ''-'' | [] \<Rightarrow> False);
          u = (case t of c # r \<Rightarrow> if c = CHR ''-'' \<or> c = CHR ''+'' then r else t | [] \<Rightarrow> t);
          hex = (take 2 u = ''0x'' \<or> take 2 u = ''0X'');
          (v, cnt) = (if hex then readDigits 16 (drop 2 u) 0 0 else readDigits 10 u 0 0)
      in if cnt = 0 then None else Some (if neg then - int v else int v))"

fun natToString :: "nat \<Rightarrow> string" where
  "natToString n =
     (if n < 10 then [''0123456789'' ! n]
      else natToString (n div 10) @ [''0123456789'' ! (n mod 10)])"

declare natToString.simps [simp del]

text \<open>
  \<^verbatim>\<open>(h + 1).toString()\<close> for the number \<open>h\<close> that \<^verbatim>\<open>parseInt\<close> returned:
  \<^verbatim>\<open>NaN + 1\<close> is \<^verbatim>\<open>NaN\<close>, whose string is \<^verbatim>\<open>NaN\<close>. An integer is printed in
  plain digits, as JavaScript prints it below \<open>10^21\<close>.
\<close>

definition numberToString :: "int option \<Rightarrow> string" where
  "numberToString v =
     (case v of
        None \<Rightarrow> ''NaN''
      | Some i \<Rightarrow> if i < 0 then CHR ''-'' # natToString (nat (- i)) else natToString (nat i))"

definition padStart :: "nat \<Rightarrow> char \<Rightarrow> string \<Rightarrow> string" where
  "padStart n c s = replicate (n - length s) c @ s"

definition splitHead :: "char \<Rightarrow> string \<Rightarrow> string" where
  "splitHead sep s = takeWhile (\<lambda>c. c \<noteq> sep) s"

section \<open>Google Calendar integration\<close>

text \<open>
  The event object that \<^verbatim>\<open>createCalendarEvent\<close> builds from the group and the week.
\<close>

definition endHour :: "rgroup \<Rightarrow> string" where
  "endHour g =
     padStart 2 CHR ''0''
       (numberToString (map_option (\<lambda>h. h + 1) (parseInt (splitHead CHR '':'' (timeOfDay (schedule g))))))"

definition buildEvent :: "rgroup \<Rightarrow> string \<Rightarrow> calEvent" where
  "buildEvent g weekStartDate =
     \<lparr> summary = g_name g @ '' - Your Turn This Week'',
       ev_description =
         description g @ [CHR 0x0A, CHR 0x0A] @ ''You are scheduled for this week'' @ [CHR 0x27]
           @ ''s rotation.'' @ [CHR 0x0A, CHR 0x0A] @ ''Week starting: '' @ weekStartDate,
       startDateTime = weekStartDate @ ''T'' @ timeOfDay (schedule g) @ '':00'',
       startTimeZone = ''America/Los_Angeles'',
       endDateTime = weekStartDate @ ''T'' @ endHour g @ '':00:00'',
       endTimeZone = ''America/Los_Angeles'',
       useDefault = False,
       overrides = [(''email'', 1440), (''popup'', 60)] \<rparr>"

definition isUser :: "string \<Rightarrow> user \<Rightarrow> bool" where
  "isUser uid u = (u_id u = uid)"

text \<open>
  \<^verbatim>\<open>createCalendarEvent(userId, groupId, weekStartDate)\<close>. After a refresh the OAuth
  client holds the refreshed credentials, which the insertion then uses.
\<close>

definition createCalendarEvent ::
  "ext \<Rightarrow> string \<Rightarrow> string \<Rightarrow> string \<Rightarrow> state \<Rightarrow> (error + string) \<times> state"
where
  "createCalendarEvent x uid groupId weekStartDate s =
     (case find (isUser uid) (users (data s)) of
        None \<Rightarrow> (Inl Unauthenticated, s)
      | Some u \<Rightarrow>
         (case googleTokens u of
            None \<Rightarrow> (Inl Unauthenticated, s)
          | Some tk \<Rightarrow>
             (case find (isGroup groupId) (groups (data s)) of
                None \<Rightarrow> (Inl GroupNotFound, s)
              | Some g \<Rightarrow>
                 (let refreshed =
                        (if expiry_date tk \<le> dateNow x (calls s) then
                           (case refreshAccessToken x (calls s) tk of
                              None \<Rightarrow> (Inl RefreshFailure, s\<lparr>calls := calls s @ [Refresh tk]\<rparr>)
                            | Some credentials \<Rightarrow>
                               (case saveData x
                                       (s\<lparr>calls := calls s @ [Refresh tk],
                                          data := (data s)\<lparr>users :=
                                            updateFirst (isUser uid)
                                              (\<lambda>user. user\<lparr>googleTokens := Some credentials\<rparr>)
                                              (users (data s))\<rparr>\<rparr>) of
                                  (Inl e, s1) \<Rightarrow> (Inl e, s1)
                                | (Inr _, s1) \<Rightarrow> (Inr credentials, s1)))
                         else (Inr tk, s))
                  in case refreshed of
                       (Inl e, s1) \<Rightarrow> (Inl e, s1)
                     | (Inr auth, s1) \<Rightarrow>
                        (let event = buildEvent g weekStartDate;
                             s2 = s1\<lparr>calls := calls s1 @ [Insert auth event]\<rparr>
                         in case eventsInsert x (calls s1) auth event of
                              None \<Rightarrow> (Inl ExternalSyncFailure, s2)
                            | Some eventId \<Rightarrow> (Inr eventId, s2))))))"

definition deleteCalendarEvent ::
  "ext \<Rightarrow> string \<Rightarrow> string \<Rightarrow> state \<Rightarrow> (error + unit) \<times> state"
where
  "deleteCalendarEvent x uid eventId s =
     (case find (isUser uid) (users (data s)) of
        None \<Rightarrow> (Inl Unauthenticated, s)
      | Some u \<Rightarrow>
         (case googleTokens u of
            None \<Rightarrow> (Inl Unauthenticated, s)
          | Some tk \<Rightarrow>
             (let s1 = s\<lparr>calls := calls s @ [Delete tk eventId]\<rparr>
              in if eventsDelete x (calls s) tk eventId then (Inr (), s1)
                 else (Inl ExternalSyncFailure, s1))))"

section \<open>Route handlers\<close>

text \<open>
  Each handler is one \<^verbatim>\<open>try { ... } catch (error) { res.status(500) ... }\<close>: the
  result is the error of the response or the payload of the success response, with the
  state the handler leaves behind in both cases. The handlers run one at a time.
\<close>

subsection \<open>POST /api/groups/:groupId/members\<close>

text \<open>
  The handler stores \<^verbatim>\<open>req.body.userId\<close> as it comes, with the member count as the
  order position. It has no \<^verbatim>\<open>try\<close>: a rejected write of the file leaves the request
  unanswered, which is the error result here. The success response carries the group.
\<close>

definition postMember :: "ext \<Rightarrow> string \<Rightarrow> string \<Rightarrow> state \<Rightarrow> (error + rgroup) \<times> state" where
  "postMember x groupId reqUserId s =
     (case find (isGroup groupId) (groups (data s)) of
        None \<Rightarrow> (Inl GroupNotFound, s)
      | Some g \<Rightarrow>
         if list_ex (\<lambda>m. userId m = reqUserId) (members g) then (Inl UserAlreadyInGroup, s)
         else
           (let push = (\<lambda>group. group\<lparr>members := members group
                          @ [\<lparr>userId = reqUserId, orderPosition = int (length (members group))\<rparr>]\<rparr>)
            in case saveData x (s\<lparr>data := (data s)\<lparr>groups :=
                      updateFirst (isGroup groupId) push (groups (data s))\<rparr>\<rparr>) of
                 (Inl e, s1) \<Rightarrow> (Inl e, s1)
               | (Inr _, s1) \<Rightarrow> (Inr (push g), s1)))"

subsection \<open>POST /api/trigger/:groupId\<close>



subsection \<open>POST /api/swap\<close>

definition isSwapTarget :: "string \<Rightarrow> string \<Rightarrow> string \<Rightarrow> rotation \<Rightarrow> bool" where
  "isSwapTarget groupId weekStartDate fromUserId r =
     (r_groupId r = groupId \<and> r_weekStartDate r = weekStartDate \<and> assignedUserId r = fromUserId)"

definition deleteIfEvent :: "ext \<Rightarrow> string \<Rightarrow> rotation \<Rightarrow> state \<Rightarrow> (error + unit) \<times> state" where
  "deleteIfEvent x uid r s =
     (if calendarEventId r \<noteq> [] then deleteCalendarEvent x uid (calendarEventId r) s
      else (Inr (), s))"

text \<open>
  The handler assigns to the fields of the rotation object it found; no step before
  the assignment changes the rotation list, so that object is still the first match.
  The success response carries the rotation and the new user's name.
\<close>

definition postSwap ::
  "ext \<Rightarrow> string \<Rightarrow> string \<Rightarrow> string \<Rightarrow> string \<Rightarrow> state \<Rightarrow> (error + (rotation \<times> string)) \<times> state"
where
  "postSwap x groupId weekStartDate fromUserId toUserId s =
     (case find (isSwapTarget groupId weekStartDate fromUserId) (rotations (data s)) of
        None \<Rightarrow> (Inl RotationNotFound, s)
      | Some rotation \<Rightarrow>
         (case deleteIfEvent x fromUserId rotation s of
            (Inl e, s1) \<Rightarrow> (Inl e, s1)
          | (Inr _, s1) \<Rightarrow>
             (case createCalendarEvent x toUserId groupId weekStartDate s1 of
                (Inl e, s2) \<Rightarrow> (Inl e, s2)
              | (Inr newEventId, s2) \<Rightarrow>
                 (let assign = (\<lambda>r. r\<lparr>assignedUserId := toUserId,
                                        calendarEventId := newEventId,
                                        swappedAt := Some (isoNow x (calls s2))\<rparr>);
                      s3 = s2\<lparr>data := (data s2)\<lparr>rotations :=
                              updateFirst (isSwapTarget groupId weekStartDate fromUserId) assign
                                (rotations (data s2))\<rparr>\<rparr>
                  in case saveData x s3 of
                       (Inl e, s4) \<Rightarrow> (Inl e, s4)
                     | (Inr _, s4) \<Rightarrow>
                        (case find (isUser toUserId) (users (data s4)) of
                           None \<Rightarrow> (Inl TypeError, s4)
                         | Some toUser \<Rightarrow> (Inr (assign rotation, name toUser), s4))))))"

subsection \<open>DELETE /api/rotations/:rotationId\<close>

definition deleteRotation :: "ext \<Rightarrow> string \<Rightarrow> state \<Rightarrow> (error + unit) \<times> state" where
  "deleteRotation x rotationId s =
     (case find (\<lambda>r. r_id r = rotationId) (rotations (data s)) of
        None \<Rightarrow> (Inl RotationNotFound, s)
      | Some rotation \<Rightarrow>
         (case deleteIfEvent x (assignedUserId rotation) rotation s of
            (Inl e, s1) \<Rightarrow> (Inl e, s1)
          | (Inr _, s1) \<Rightarrow>
             saveData x
               (s1\<lparr>data := (data s1)\<lparr>rotations :=
                      filter (\<lambda>r. r_id r \<noteq> rotationId) (rotations (data s1))\<rparr>\<rparr>)))"

subsection \<open>DELETE /api/groups/:groupId/members/:userId\<close>

text \<open>
  \<^verbatim>\<open>new Date(r.weekStartDate) >= new Date()\<close>: a comparison of two instants, false when
  the date string is invalid. The clock is read as a function of the calls made so far;
  a pass of \<^verbatim>\<open>filter\<close> awaits nothing, so its readings are one instant here.
\<close>

definition notBefore :: "ext \<Rightarrow> call list \<Rightarrow> rotation \<Rightarrow> bool" where
  "notBefore x cs r =
     (case dateParse x (r_weekStartDate r) of
        None \<Rightarrow> False
      | Some t \<Rightarrow> dateNow x cs \<le> t)"

definition isFutureOf :: "ext \<Rightarrow> call list \<Rightarrow> string \<Rightarrow> string \<Rightarrow> rotation \<Rightarrow> bool" where
  "isFutureOf x cs groupId uid r =
     (r_groupId r = groupId \<and> assignedUserId r = uid \<and> notBefore x cs r)"

text \<open>
  The loop over \<^verbatim>\<open>futureRotations\<close>: the \<^verbatim>\<open>catch\<close> inside it logs the error and goes on.
\<close>

fun deleteLoop :: "ext \<Rightarrow> string \<Rightarrow> rotation list \<Rightarrow> state \<Rightarrow> state" where
  "deleteLoop x uid [] s = s"
| "deleteLoop x uid (r # rs) s = deleteLoop x uid rs (snd (deleteIfEvent x uid r s))"

text \<open>
  The success response carries the user's name and \<^verbatim>\<open>futureRotations.length\<close>.
\<close>

definition deleteMember ::
  "ext \<Rightarrow> string \<Rightarrow> string \<Rightarrow> state \<Rightarrow> (error + (string \<times> nat)) \<times> state"
where
  "deleteMember x groupId uid s =
     (case find (isGroup groupId) (groups (data s)) of
        None \<Rightarrow> (Inl GroupNotFound, s)
      | Some g \<Rightarrow>
         (let s1 = s\<lparr>data := (data s)\<lparr>groups :=
                      updateFirst (isGroup groupId)
                        (\<lambda>group. group\<lparr>members := filter (\<lambda>m. userId m \<noteq> uid) (members group)\<rparr>)
                        (groups (data s))\<rparr>\<rparr>;
              futureRotations = filter (isFutureOf x (calls s1) groupId uid) (rotations (data s1));
              s2 = deleteLoop x uid futureRotations s1;
              s3 = s2\<lparr>data := (data s2)\<lparr>rotations :=
                      filter (\<lambda>r. \<not> isFutureOf x (calls s2) groupId uid r) (rotations (data s2))\<rparr>\<rparr>
          in case saveData x s3 of
               (Inl e, s4) \<Rightarrow> (Inl e, s4)
             | (Inr _, s4) \<Rightarrow>
                (case find (isUser uid) (users (data s4)) of
                   None \<Rightarrow> (Inl TypeError, s4)
                 | Some u \<Rightarrow> (Inr (name u, length futureRotations), s4))))"

section \<open>Vocabulary of the properties\<close>

text \<open>
  The candidate that the scan looks at when its index is \<open>i\<close>, and whether a skip week
  makes that candidate ineligible.
\<close>

definition candidateAt :: "member list \<Rightarrow> int \<Rightarrow> member" where
  "candidateAt sm i = sm ! nat (i mod int (length sm))"

definition skippedAt :: "member list \<Rightarrow> skipWeek list \<Rightarrow> string \<Rightarrow> string \<Rightarrow> int \<Rightarrow> bool" where
  "skippedAt sm skips groupId wk i = hasSkip skips (userId (candidateAt sm i)) groupId wk"

text \<open>
  Consecutive selections for a list of target weeks, stopping at the first failure; the
  result is the list of assignees in the order of the calls.
\<close>

fun selectMany :: "store \<Rightarrow> string \<Rightarrow> string list \<Rightarrow> (error + string list) \<times> store" where
  "selectMany d groupId [] = (Inr [], d)"
| "selectMany d groupId (wk # wks) =
     (case getNextRotationAssignment d groupId wk of
        (Inl e, d1) \<Rightarrow> (Inl e, d1)
      | (Inr (uid, _), d1) \<Rightarrow>
         (case selectMany d1 groupId wks of
            (Inl e, d2) \<Rightarrow> (Inl e, d2)
          | (Inr uids, d2) \<Rightarrow> (Inr (uid # uids), d2)))"

text \<open>
  A group of three members stored out of order, with a given cursor, and a store that
  holds this group only.
\<close>

definition memberA :: member where "memberA = \<lparr>userId = ''A'', orderPosition = 0\<rparr>"
definition memberB :: member where "memberB = \<lparr>userId = ''B'', orderPosition = 1\<rparr>"
definition memberC :: member where "memberC = \<lparr>userId = ''C'', orderPosition = 2\<rparr>"

definition groupABC :: "int \<Rightarrow> rgroup" where
  "groupABC cursor =
     \<lparr> g_id = ''g1'', g_name = ''Visits'', description = ''Weekly visit'',
       members = [memberC, memberA, memberB],
       schedule = \<lparr>dayOfWeek = 1, timeOfDay = ''09:00''\<rparr>,
       currentIndex = cursor, isActive = True \<rparr>"

definition storeABC :: "int \<Rightarrow> skipWeek list \<Rightarrow> store" where
  "storeABC cursor skips = \<lparr>users = [], groups = [groupABC cursor], skipWeeks = skips, rotations = []\<rparr>"

text \<open>
  A skip week of the group \<^verbatim>\<open>g1\<close>, and groups of that id with other member lists.
\<close>

definition skipOf :: "string \<Rightarrow> string \<Rightarrow> skipWeek" where
  "skipOf uid wk = \<lparr>s_id = ''skip-1'', s_userId = uid, s_groupId = ''g1'', s_weekStartDate = wk,
                    reason = [], s_createdAt = []\<rparr>"

definition groupOf :: "member list \<Rightarrow> int \<Rightarrow> rgroup" where
  "groupOf ms cursor = (groupABC cursor)\<lparr>members := ms\<rparr>"

definition storeOf :: "rgroup \<Rightarrow> skipWeek list \<Rightarrow> store" where
  "storeOf g skips = \<lparr>users = [], groups = [g], skipWeeks = skips, rotations = []\<rparr>"

section \<open>Calendar dates\<close>

text \<open>
  Days since 1970-01-01 of a date of the proleptic Gregorian calendar, and the date a
  number of days after a date. They serve the concrete collaborators of the examples
  and the reading of the specification's "period start plus day offset".
\<close>

definition daysFromCivil :: "int \<Rightarrow> int \<Rightarrow> int \<Rightarrow> int" where
  "daysFromCivil y m d =
     (let y1 = (if m \<le> 2 then y - 1 else y);
          era = y1 div 400;
          yoe = y1 - era * 400;
          mp = (m + 9) mod 12;
          doy = (153 * mp + 2) div 5 + d - 1;
          doe = yoe * 365 + yoe div 4 - yoe div 100 + doy
      in era * 146097 + doe - 719468)"

definition isLeap :: "int \<Rightarrow> bool" where
  "isLeap y = (y mod 4 = 0 \<and> (y mod 100 \<noteq> 0 \<or> y mod 400 = 0))"

definition daysInMonth :: "int \<Rightarrow> int \<Rightarrow> int" where
  "daysInMonth y m =
     (if m = 2 then (if isLeap y then 29 else 28)
      else if m = 4 \<or> m = 6 \<or> m = 9 \<or> m = 11 then 30 else 31)"

definition nextDay :: "int \<times> int \<times> int \<Rightarrow> int \<times> int \<times> int" where
  "nextDay ymd =
     (case ymd of (y, m, d) \<Rightarrow>
        if d < daysInMonth y m then (y, m, d + 1)
        else if m < 12 then (y, m + 1, 1)
        else (y + 1, 1, 1))"

fun addDays :: "nat \<Rightarrow> int \<times> int \<times> int \<Rightarrow> int \<times> int \<times> int" where
  "addDays 0 ymd = ymd"
| "addDays (Suc k) ymd = addDays k (nextDay ymd)"

definition allDigits :: "string \<Rightarrow> bool" where
  "allDigits s = (s \<noteq> [] \<and> list_all (\<lambda>c. digitIn 10 c \<noteq> None) s)"

definition digitsValue :: "string \<Rightarrow> int" where
  "digitsValue s = int (fst (readDigits 10 s 0 0))"

text \<open>
  A date string of the form \<^verbatim>\<open>YYYY-MM-DD\<close>, as \<^verbatim>\<open>toISOString().split('T')[0]\<close>
  produces it.
\<close>

definition parseIsoDate :: "string \<Rightarrow> (int \<times> int \<times> int) option" where
  "parseIsoDate s =
     (let y = take 4 s; m = take 2 (drop 5 s); d = take 2 (drop 8 s)
      in if length s = 10 \<and> s ! 4 = CHR ''-'' \<and> s ! 7 = CHR ''-''
            \<and> allDigits y \<and> allDigits m \<and> allDigits d
         then Some (digitsValue y, digitsValue m, digitsValue d)
         else None)"

definition formatIsoDate :: "int \<times> int \<times> int \<Rightarrow> string" where
  "formatIsoDate ymd =
     (case ymd of (y, m, d) \<Rightarrow>
        padStart 4 CHR ''0'' (natToString (nat y)) @ ''-''
        @ padStart 2 CHR ''0'' (natToString (nat m)) @ ''-''
        @ padStart 2 CHR ''0'' (natToString (nat d)))"

definition addDaysIso :: "string \<Rightarrow> nat \<Rightarrow> string option" where
  "addDaysIso s k = map_option (\<lambda>ymd. formatIsoDate (addDays k ymd)) (parseIsoDate s)"

text \<open>
  The instant, in milliseconds, of midnight UTC at the start of an ISO date: the value
  of \<^verbatim>\<open>new Date('YYYY-MM-DD')\<close>.
\<close>

definition utcDateMs :: "string \<Rightarrow> int option" where
  "utcDateMs s = map_option (\<lambda>(y, m, d). daysFromCivil y m d * 86400000) (parseIsoDate s)"

section \<open>Concrete collaborators for the examples\<close>

text \<open>
  A world in which every call succeeds: the refresh returns a token that expires
  later, the calendar names the event after the number of calls made so far, and the
  clock stands at \<open>now\<close>. The server runs in UTC, and the examples use valid dates
  only.
\<close>

definition freshTokens :: tokens where
  "freshTokens = \<lparr>access_token = ''fresh'', refresh_token = ''r1'', expiry_date = 9999999999999\<rparr>"

definition extAt :: "int \<Rightarrow> ext" where
  "extAt now =
     \<lparr> refreshAccessToken = (\<lambda>cs tk. Some freshTokens),
       eventsInsert = (\<lambda>cs tk ev. Some (''evt-'' @ natToString (length cs))),
       eventsDelete = (\<lambda>cs tk eventId. True),
       writeFile = (\<lambda>cs d. True),
       dateNow = (\<lambda>cs. now),
       isoNow = (\<lambda>cs. ''now''),
       dateParse = utcDateMs,
       generateId = (\<lambda>cs prefix. prefix @ ''-'' @ natToString (length cs)),
       addWeeks = (\<lambda>s k. addDaysIso s (7 * k)),
       getWeekStartDate = (\<lambda>cs. ''2026-02-16'') \<rparr>"

text \<open>
  Users with and without credentials, a stored token that expired at instant 1000, and
  a server state whose file agrees with memory and that has made no call yet.
\<close>

definition oldTokens :: tokens where
  "oldTokens = \<lparr>access_token = ''old'', refresh_token = ''r1'', expiry_date = 1000\<rparr>"

definition userOf :: "string \<Rightarrow> tokens option \<Rightarrow> user" where
  "userOf uid tk = \<lparr>u_id = uid, email = uid @ ''@example.org'', name = uid, googleTokens = tk\<rparr>"

definition demoStore :: "user list \<Rightarrow> rotation list \<Rightarrow> store" where
  "demoStore us rs = \<lparr>users = us, groups = [groupABC 0], skipWeeks = [], rotations = rs\<rparr>"

definition stateOf :: "store \<Rightarrow> state" where
  "stateOf d = \<lparr>data = d, disk = d, calls = []\<rparr>"

text \<open>
  The store after \<^verbatim>\<open>user.googleTokens = credentials\<close> for the user a lookup by \<open>uid\<close>
  finds.
\<close>

definition refreshedData :: "state \<Rightarrow> string \<Rightarrow> tokens \<Rightarrow> store" where
  "refreshedData s uid credentials =
     (data s)\<lparr>users := updateFirst (isUser uid) (\<lambda>user. user\<lparr>googleTokens := Some credentials\<rparr>)
                            (users (data s))\<rparr>"

text \<open>
  A scheduled rotation of the group \<^verbatim>\<open>g1\<close>, and a world like \<open>extAt\<close> in which every
  write of the file is rejected.
\<close>

definition rotOf :: "string \<Rightarrow> string \<Rightarrow> string \<Rightarrow> string \<Rightarrow> rotation" where
  "rotOf rid uid wk eventId =
     \<lparr> r_id = rid, r_groupId = ''g1'', assignedUserId = uid, r_weekStartDate = wk,
       calendarEventId = eventId, status = ''scheduled'', createdAt = ''2026-02-01T00:00:00.000Z'',
       swappedAt = None \<rparr>"

definition extNoSave :: "int \<Rightarrow> ext" where
  "extNoSave now = (extAt now)\<lparr>writeFile := (\<lambda>cs d. False)\<rparr>"

text \<open>
  A world like \<open>extAt\<close> whose calendar rejects every insertion.
\<close>

definition extNoInsert :: "int \<Rightarrow> ext" where
  "extNoInsert now = (extAt now)\<lparr>eventsInsert := (\<lambda>cs tk ev. None)\<rparr>"




definition storeAt :: "int \<Rightarrow> skipWeek list \<Rightarrow> user list \<Rightarrow> rotation list \<Rightarrow> store" where
  "storeAt cursor skips us rs = \<lparr>users = us, groups = [groupABC cursor], skipWeeks = skips, rotations = rs\<rparr>"

definition usersABC :: "user list" where
  "usersABC = [userOf ''A'' (Some freshTokens), userOf ''B'' (Some freshTokens), userOf ''C'' (Some freshTokens)]"

text \<open>
  The event of the group \<^verbatim>\<open>g1\<close> for a week; it does not depend on the cursor.
\<close>

definition demoEvent :: "string \<Rightarrow> calEvent" where
  "demoEvent wk = buildEvent (groupABC 0) wk"



text \<open>
  The specification's reading of "future": the period start is on or after today, today
  being the UTC calendar day that contains the current instant. The dashboard's
  \<^verbatim>\<open>nextNRotations\<close> selects the future rotations in this way, by comparing the week
  start with today's date.
\<close>

definition spec_onOrAfterToday :: "ext \<Rightarrow> int \<Rightarrow> rotation \<Rightarrow> bool" where
  "spec_onOrAfterToday x now r =
     (case dateParse x (r_weekStartDate r) of
        None \<Rightarrow> False
      | Some t \<Rightarrow> now - now mod 86400000 \<le> t)"

definition spec_removedByRemoveMember :: "ext \<Rightarrow> int \<Rightarrow> string \<Rightarrow> string \<Rightarrow> rotation \<Rightarrow> bool" where
  "spec_removedByRemoveMember x now groupId uid r =
     (r_groupId r = groupId \<and> assignedUserId r = uid \<and> spec_onOrAfterToday x now r)"

text \<open>
  The member list update of the removal handler, and the state in which the handler
  reads the clock for the second time, after its deletion loop.
\<close>

definition withoutMember :: "string \<Rightarrow> string \<Rightarrow> rgroup list \<Rightarrow> rgroup list" where
  "withoutMember groupId uid gs =
     updateFirst (isGroup groupId)
       (\<lambda>group. group\<lparr>members := filter (\<lambda>m. userId m \<noteq> uid) (members group)\<rparr>) gs"

definition afterDeletes :: "ext \<Rightarrow> string \<Rightarrow> string \<Rightarrow> state \<Rightarrow> state" where
  "afterDeletes x groupId uid s =
     deleteLoop x uid (filter (isFutureOf x (calls s) groupId uid) (rotations (data s)))
       (s\<lparr>data := (data s)\<lparr>groups := withoutMember groupId uid (groups (data s))\<rparr>\<rparr>)"

text \<open>
  A world like \<open>extAt\<close> whose calendar rejects every deletion; noon UTC of Monday
  2026-11-02; rotations of the weeks that start on the Monday before, on that Monday and
  on the Monday after.
\<close>

definition extNoDelete :: "int \<Rightarrow> ext" where
  "extNoDelete now = (extAt now)\<lparr>eventsDelete := (\<lambda>cs tk eventId. False)\<rparr>"

definition noon20261102 :: int where
  "noon20261102 = 1793620800000"

definition rotPast :: rotation where "rotPast = rotOf ''rot-1'' ''A'' ''2026-10-26'' ''evt-1''"
definition rotToday :: rotation where "rotToday = rotOf ''rot-2'' ''A'' ''2026-11-02'' ''evt-2''"
definition rotNext :: rotation where "rotNext = rotOf ''rot-3'' ''A'' ''2026-11-09'' ''evt-3''"
definition rotOther :: rotation where "rotOther = rotOf ''rot-4'' ''B'' ''2026-11-09'' ''evt-4''"

text \<open>
  The specification's event times, to compare with \<open>buildEvent\<close>: the start is the
  group's time of day on the period start plus the offset of the group's day of week
  from the period's first day (Monday, day 1, as the dashboard's \<^verbatim>\<open>getRotationDate\<close>
  counts it), and the end is one hour after the start. The time of day has the form
  \<^verbatim>\<open>HH:MM\<close>.
\<close>

definition spec_dayOffset :: "int \<Rightarrow> nat" where
  "spec_dayOffset dow = nat (dow - 1)"

definition spec_eventStart :: "rgroup \<Rightarrow> string \<Rightarrow> string option" where
  "spec_eventStart g periodStart =
     map_option (\<lambda>day. day @ ''T'' @ timeOfDay (schedule g) @ '':00'')
       (addDaysIso periodStart (spec_dayOffset (dayOfWeek (schedule g))))"

definition spec_eventEnd :: "rgroup \<Rightarrow> string \<Rightarrow> string option" where
  "spec_eventEnd g periodStart =
     (let hh = take 2 (timeOfDay (schedule g));
          mm = drop 3 (timeOfDay (schedule g));
          h = nat (digitsValue hh);
          offset = spec_dayOffset (dayOfWeek (schedule g))
      in if \<not> allDigits hh then None
         else map_option
                (\<lambda>day. day @ ''T'' @ padStart 2 CHR ''0'' (natToString (if h < 23 then h + 1 else 0))
                        @ '':'' @ mm @ '':00'')
                (addDaysIso periodStart (if h < 23 then offset else offset + 1)))"

text \<open>
  The group \<^verbatim>\<open>g1\<close> visiting on Wednesdays at half past nine.
\<close>

definition groupWed :: rgroup where
  "groupWed = (groupABC 0)\<lparr>schedule := \<lparr>dayOfWeek = 3, timeOfDay = ''09:30''\<rparr>\<rparr>"

text \<open>
  A member whose user id is the empty string, as the handler that adds members stores
  it when the request carries that id.
\<close>

definition memberE :: member where "memberE = \<lparr>userId = [], orderPosition = 0\<rparr>"

section \<open>Properties of the selector\<close>


lemma jsRem_nonneg: "0 \<le> a \<Longrightarrow> jsRem a n = a mod int n"
  by (simp add: jsRem_def)

lemma jsRem_range: "0 \<le> a \<Longrightarrow> 0 < n \<Longrightarrow> 0 \<le> jsRem a n \<and> jsRem a n < int n"
  by (simp add: jsRem_def)

lemma jsIndex_mod:
  "0 \<le> a \<Longrightarrow> xs \<noteq> [] \<Longrightarrow> jsIndex xs (jsRem a (length xs)) = Some (xs ! nat (a mod int (length xs)))"
  by (simp add: jsIndex_def jsRem_def)

lemma scanLoop_no_error:
  "0 \<le> ci \<Longrightarrow> sm \<noteq> [] \<Longrightarrow> scanLoop sm skips gid wk ci a \<noteq> Inl e"
proof (induction sm skips gid wk ci a rule: scanLoop.induct)
  case (1 sm skips groupId targetWeekDate ci attempts)
  show ?case
  proof (cases "attempts < length sm")
    case False
    then show ?thesis by (simp add: scanLoop.simps)
  next
    case True
    have idx: "jsIndex sm (jsRem ci (length sm)) = Some (sm ! nat (ci mod int (length sm)))"
      using "1.prems" by (simp add: jsIndex_mod)
    show ?thesis
    proof (cases "hasSkip skips (userId (sm ! nat (ci mod int (length sm)))) groupId targetWeekDate")
      case False
      with True idx show ?thesis by (subst scanLoop.simps) simp
    next
      case hs: True
      have "scanLoop sm skips groupId targetWeekDate (ci + 1) (attempts + 1) \<noteq> Inl e"
        using "1.IH"[OF True idx hs] "1.prems" by simp
      with True idx hs show ?thesis by (subst scanLoop.simps) simp
    qed
  qed
qed


lemma find_holds: "find p xs = Some x \<Longrightarrow> p x \<and> x \<in> set xs"
  by (induction xs) (auto split: if_splits)

lemma find_updateFirst_keep:
  "find p xs = Some x \<Longrightarrow> p (f x) \<Longrightarrow> find p (updateFirst p f xs) = Some (f x)"
  by (induction xs) (auto split: if_splits)

lemma find_updateFirst_None:
  "find p xs = None \<Longrightarrow> updateFirst p f xs = xs"
  by (induction xs) (auto split: if_splits)

lemma length_sortedMembers: "length (sortedMembers g) = length (members g)"
  by (simp add: sortedMembers_def)

lemma scanLoop_unfold:
  assumes "0 \<le> ci" "sm \<noteq> []" "a < length sm"
  shows "scanLoop sm skips gid wk ci a =
     (if skippedAt sm skips gid wk ci then scanLoop sm skips gid wk (ci + 1) (a + 1)
      else Inr (Some (userId (candidateAt sm ci)), ci))"
  using assms
  by (subst scanLoop.simps) (simp add: jsIndex_mod skippedAt_def candidateAt_def)

lemma scanLoop_all_skipped:
  assumes "0 \<le> ci" "sm \<noteq> []" "a + m = length sm"
    and "\<forall>j<m. skippedAt sm skips gid wk (ci + int j)"
  shows "scanLoop sm skips gid wk ci a = Inr (None, ci + int m)"
  using assms
proof (induction m arbitrary: ci a)
  case 0
  then show ?case by (subst scanLoop.simps) simp
next
  case (Suc m)
  have here: "skippedAt sm skips gid wk ci" using Suc.prems(4) by (metis of_nat_0 add.right_neutral zero_less_Suc)
  have rest: "\<forall>j<m. skippedAt sm skips gid wk ((ci + 1) + int j)"
  proof (intro allI impI)
    fix j assume "j < m"
    then have "skippedAt sm skips gid wk (ci + int (Suc j))"
      using spec[OF Suc.prems(4), of "Suc j"] by simp
    then show "skippedAt sm skips gid wk ((ci + 1) + int j)" by (simp add: add.commute add.left_commute)
  qed
  have "scanLoop sm skips gid wk (ci + 1) (a + 1) = Inr (None, (ci + 1) + int m)"
    using Suc.IH[of "ci + 1" "a + 1"] Suc.prems rest by simp
  moreover have "a < length sm" using Suc.prems(3) by simp
  ultimately show ?case
    using scanLoop_unfold[OF Suc.prems(1,2), of a skips gid wk] here by simp
qed

lemma scanLoop_first_eligible:
  assumes "0 \<le> ci" "sm \<noteq> []" "a + k < length sm"
    and "\<forall>j<k. skippedAt sm skips gid wk (ci + int j)"
    and "\<not> skippedAt sm skips gid wk (ci + int k)"
  shows "scanLoop sm skips gid wk ci a = Inr (Some (userId (candidateAt sm (ci + int k))), ci + int k)"
  using assms
proof (induction k arbitrary: ci a)
  case 0
  then show ?case using scanLoop_unfold[of ci sm a skips gid wk] by simp
next
  case (Suc k)
  have here: "skippedAt sm skips gid wk ci" using Suc.prems(4) by (metis of_nat_0 add.right_neutral zero_less_Suc)
  have rest: "\<forall>j<k. skippedAt sm skips gid wk ((ci + 1) + int j)"
  proof (intro allI impI)
    fix j assume "j < k"
    then have "skippedAt sm skips gid wk (ci + int (Suc j))"
      using spec[OF Suc.prems(4), of "Suc j"] by simp
    then show "skippedAt sm skips gid wk ((ci + 1) + int j)" by (simp add: add.commute add.left_commute)
  qed
  have last: "\<not> skippedAt sm skips gid wk ((ci + 1) + int k)"
    using Suc.prems(5) by (simp add: add.commute add.left_commute)
  have "scanLoop sm skips gid wk (ci + 1) (a + 1)
      = Inr (Some (userId (candidateAt sm ((ci + 1) + int k))), (ci + 1) + int k)"
    using Suc.IH[of "ci + 1" "a + 1"] Suc.prems(1,2,3) rest last by simp
  moreover have "a < length sm" using Suc.prems(3) by simp
  ultimately show ?case
    using scanLoop_unfold[OF Suc.prems(1,2), of a skips gid wk] here
    by (simp add: add.commute add.left_commute)
qed

lemma scanLoop_index_mono:
  "0 \<le> ci \<Longrightarrow> sm \<noteq> [] \<Longrightarrow> scanLoop sm skips gid wk ci a = Inr (r, ci') \<Longrightarrow> ci \<le> ci'"
proof (induction sm skips gid wk ci a rule: scanLoop.induct)
  case (1 sm skips groupId targetWeekDate ci attempts)
  show ?case
  proof (cases "attempts < length sm")
    case False
    with "1.prems" show ?thesis by (simp add: scanLoop.simps)
  next
    case True
    have idx: "jsIndex sm (jsRem ci (length sm)) = Some (sm ! nat (ci mod int (length sm)))"
      using "1.prems" by (simp add: jsIndex_mod)
    show ?thesis
    proof (cases "hasSkip skips (userId (sm ! nat (ci mod int (length sm)))) groupId targetWeekDate")
      case False
      with True idx "1.prems"(3) show ?thesis by (subst (asm) scanLoop.simps) simp
    next
      case hs: True
      have "scanLoop sm skips groupId targetWeekDate (ci + 1) (attempts + 1) = Inr (r, ci')"
        using "1.prems"(3) True idx hs by (subst (asm) scanLoop.simps) simp
      then have "ci + 1 \<le> ci'"
        using "1.IH"[OF True idx hs] "1.prems" by simp
      then show ?thesis by simp
    qed
  qed
qed

text \<open>
  C9. For a group with at least one member and a stored cursor that is not negative
  (also one that is greater than or equal to the member count), the selection never
  reads outside the sorted member list, and whenever it succeeds the cursor it writes
  back lies between 0 and the member count minus one.
\<close>

theorem selectNext_cursor_in_range:
  assumes "find (isGroup groupId) (groups d) = Some g" "members g \<noteq> []" "0 \<le> currentIndex g"
  shows "fst (getNextRotationAssignment d groupId wk) \<noteq> Inl TypeError \<and>
     (\<forall>r d'. getNextRotationAssignment d groupId wk = (Inr r, d') \<longrightarrow>
        (\<exists>g'. find (isGroup groupId) (groups d') = Some g' \<and> members g' = members g \<and>
              0 \<le> currentIndex g' \<and> currentIndex g' < int (length (members g'))))"
proof -
  have ne: "sortedMembers g \<noteq> []" using assms(2) length_sortedMembers[of g] by auto
  have noerr: "\<And>e. scanLoop (sortedMembers g) (skipWeeks d) groupId wk (currentIndex g) 0 \<noteq> Inl e"
    using scanLoop_no_error[OF assms(3) ne] by simp
  show ?thesis
  proof (cases "scanLoop (sortedMembers g) (skipWeeks d) groupId wk (currentIndex g) 0")
    case (Inl e) with noerr[of e] show ?thesis by simp
  next
    case (Inr p)
    obtain a ci where p: "p = (a, ci)" by (cases p)
    have rng: "0 \<le> jsRem (ci + 1) (length (sortedMembers g)) \<and> jsRem (ci + 1) (length (sortedMembers g)) < int (length (members g))"
    proof -
      have "scanLoop (sortedMembers g) (skipWeeks d) groupId wk (currentIndex g) 0 = Inr (a, ci)"
        using Inr p by simp
      from scanLoop_index_mono[OF assms(3) ne this] assms(3) have "0 \<le> ci" by simp
      then show ?thesis using jsRem_range[of "ci + 1" "length (sortedMembers g)"] ne assms(2)
        by (simp add: length_sortedMembers)
    qed
    let ?f = "\<lambda>group. group\<lparr>currentIndex := jsRem (ci + 1) (length (sortedMembers g))\<rparr>"
    have upd: "find (isGroup groupId) (updateFirst (isGroup groupId) ?f (groups d)) = Some (?f g)"
      using assms(1) by (intro find_updateFirst_keep) (auto simp: isGroup_def dest: find_holds)
    show ?thesis
      using assms Inr p rng upd
      by (auto simp: getNextRotationAssignment_def split: if_splits)
  qed
qed

lemma candidateAt_in_set:
  assumes "sm \<noteq> []" shows "candidateAt sm i \<in> set sm"
proof -
  have "0 < int (length sm)" using assms by simp
  then have "0 \<le> i mod int (length sm)" "i mod int (length sm) < int (length sm)"
    by simp_all
  then have "nat (i mod int (length sm)) < length sm" by linarith
  then show ?thesis by (simp add: candidateAt_def)
qed

lemma set_sortedMembers: "set (sortedMembers g) = set (members g)"
  by (simp add: sortedMembers_def)

lemma sortedMembers_nonempty: "members g \<noteq> [] \<Longrightarrow> sortedMembers g \<noteq> []"
  using length_sortedMembers[of g] by auto

lemma getNext_failure_no_mutation:
  "getNextRotationAssignment d groupId wk = (Inl e, d') \<Longrightarrow> d' = d"
  by (auto simp: getNextRotationAssignment_def split: option.splits if_splits sum.splits prod.splits)

lemma getNext_all_skipped:
  assumes g: "find (isGroup groupId) (groups d) = Some g"
    and ne: "members g \<noteq> []"
    and cur: "0 \<le> currentIndex g"
    and sk: "\<forall>m \<in> set (members g). hasSkip (skipWeeks d) (userId m) groupId wk"
  shows "getNextRotationAssignment d groupId wk = (Inl AllSkipped, d)"
proof -
  let ?sm = "sortedMembers g"
  have sne: "?sm \<noteq> []" using ne by (rule sortedMembers_nonempty)
  have "\<forall>j<length ?sm. skippedAt ?sm (skipWeeks d) groupId wk (currentIndex g + int j)"
    using sk candidateAt_in_set[OF sne] by (simp add: skippedAt_def set_sortedMembers)
  then have "scanLoop ?sm (skipWeeks d) groupId wk (currentIndex g) 0
      = Inr (None, currentIndex g + int (length ?sm))"
    using scanLoop_all_skipped[OF cur sne, of 0 "length ?sm"] by simp
  then show ?thesis
    using g ne by (simp add: getNextRotationAssignment_def falsyId_def)
qed

text \<open>
  C2. The selection fails with \<open>EmptyGroup\<close> when the group has no members and with
  \<open>AllSkipped\<close> when every member has a skip week for the target week, and a failed
  selection of any kind returns the store exactly as it was passed in.
\<close>

theorem selectNext_failures:
  "(find (isGroup groupId) (groups d) = Some g \<and> members g = []
      \<longrightarrow> fst (getNextRotationAssignment d groupId wk) = Inl EmptyGroup)
   \<and> (find (isGroup groupId) (groups d) = Some g \<and> members g \<noteq> [] \<and> 0 \<le> currentIndex g
        \<and> (\<forall>m \<in> set (members g). hasSkip (skipWeeks d) (userId m) groupId wk)
      \<longrightarrow> fst (getNextRotationAssignment d groupId wk) = Inl AllSkipped)
   \<and> (\<forall>e d'. getNextRotationAssignment d groupId wk = (Inl e, d') \<longrightarrow> d' = d)"
proof (intro conjI impI allI)
  assume "find (isGroup groupId) (groups d) = Some g \<and> members g = []"
  then show "fst (getNextRotationAssignment d groupId wk) = Inl EmptyGroup"
    by (simp add: getNextRotationAssignment_def)
next
  assume "find (isGroup groupId) (groups d) = Some g \<and> members g \<noteq> [] \<and> 0 \<le> currentIndex g
        \<and> (\<forall>m \<in> set (members g). hasSkip (skipWeeks d) (userId m) groupId wk)"
  then show "fst (getNextRotationAssignment d groupId wk) = Inl AllSkipped"
    using getNext_all_skipped[of groupId d g wk] by simp
next
  fix e d' assume "getNextRotationAssignment d groupId wk = (Inl e, d')"
  then show "d' = d" by (rule getNext_failure_no_mutation)
qed

lemma getNext_first_eligible:
  assumes g: "find (isGroup groupId) (groups d) = Some g"
    and ne: "members g \<noteq> []"
    and cur: "0 \<le> currentIndex g"
    and ids: "\<forall>m \<in> set (members g). userId m \<noteq> []"
    and k: "k < length (members g)"
    and before: "\<forall>j<k. skippedAt (sortedMembers g) (skipWeeks d) groupId wk (currentIndex g + int j)"
    and here: "\<not> skippedAt (sortedMembers g) (skipWeeks d) groupId wk (currentIndex g + int k)"
  shows "getNextRotationAssignment d groupId wk =
     (Inr (userId (candidateAt (sortedMembers g) (currentIndex g + int k)), wk),
      d\<lparr>groups := updateFirst (isGroup groupId)
          (\<lambda>group. group\<lparr>currentIndex :=
              ((currentIndex g + int k) mod int (length (members g)) + 1) mod int (length (members g))\<rparr>)
          (groups d)\<rparr>)"
proof -
  let ?sm = "sortedMembers g"
  have sne: "?sm \<noteq> []" using ne by (rule sortedMembers_nonempty)
  have klt: "0 + k < length ?sm" using k by (simp add: length_sortedMembers)
  have scan: "scanLoop ?sm (skipWeeks d) groupId wk (currentIndex g) 0
      = Inr (Some (userId (candidateAt ?sm (currentIndex g + int k))), currentIndex g + int k)"
    by (rule scanLoop_first_eligible[OF cur sne klt before here])
  have "candidateAt ?sm (currentIndex g + int k) \<in> set (members g)"
    using candidateAt_in_set[OF sne] by (simp add: set_sortedMembers)
  then have truthy: "\<not> falsyId (Some (userId (candidateAt ?sm (currentIndex g + int k))))"
    using ids by (simp add: falsyId_def)
  have rem: "jsRem (currentIndex g + int k + 1) (length ?sm)
      = ((currentIndex g + int k) mod int (length (members g)) + 1) mod int (length (members g))"
    using cur by (simp add: jsRem_def length_sortedMembers mod_add_left_eq)
  show ?thesis
    using g ne scan truthy rem by (simp add: getNextRotationAssignment_def)
qed

lemma sortedMembers_sorted:
  "sorted (map orderPosition (sortedMembers g)) \<and> mset (sortedMembers g) = mset (members g)"
  by (simp add: sortedMembers_def)

lemma hasSkip_Nil: "\<not> hasSkip [] uid groupId wk"
  by (simp add: hasSkip_def)

lemma updateFirst_twice:
  "(\<And>x. p x \<Longrightarrow> p (f x)) \<Longrightarrow> updateFirst p h (updateFirst p f xs) = updateFirst p (h \<circ> f) xs"
  by (induction xs) auto

lemma candidateAt_mod: "candidateAt sm (i mod int (length sm) + j) = candidateAt sm (i + j)"
  by (simp add: candidateAt_def mod_add_left_eq)

lemma selectMany_no_skips:
  assumes "find (isGroup groupId) (groups d) = Some g" "members g \<noteq> []" "0 \<le> currentIndex g"
    "\<forall>m \<in> set (members g). userId m \<noteq> []" "skipWeeks d = []"
  shows "selectMany d groupId (wk # wks) =
     (Inr (map (\<lambda>j. userId (candidateAt (sortedMembers g) (currentIndex g + int j))) [0..<Suc (length wks)]),
      d\<lparr>groups := updateFirst (isGroup groupId)
          (\<lambda>group. group\<lparr>currentIndex := (currentIndex g + int (Suc (length wks))) mod int (length (members g))\<rparr>)
          (groups d)\<rparr>)"
  using assms
proof (induction wks arbitrary: d g wk)
  case Nil
  have "getNextRotationAssignment d groupId wk =
     (Inr (userId (candidateAt (sortedMembers g) (currentIndex g + int 0)), wk),
      d\<lparr>groups := updateFirst (isGroup groupId)
          (\<lambda>group. group\<lparr>currentIndex :=
              ((currentIndex g + int 0) mod int (length (members g)) + 1) mod int (length (members g))\<rparr>)
          (groups d)\<rparr>)"
    using Nil by (intro getNext_first_eligible) (auto simp: skippedAt_def hasSkip_Nil)
  then show ?case by (simp add: mod_add_left_eq)
next
  case (Cons wk' wks)
  let ?n = "int (length (members g))"
  let ?c1 = "(currentIndex g + 1) mod ?n"
  let ?f1 = "\<lambda>group. group\<lparr>currentIndex := ?c1\<rparr>"
  let ?d1 = "d\<lparr>groups := updateFirst (isGroup groupId) ?f1 (groups d)\<rparr>"
  let ?g1 = "g\<lparr>currentIndex := ?c1\<rparr>"
  have first: "getNextRotationAssignment d groupId wk =
     (Inr (userId (candidateAt (sortedMembers g) (currentIndex g + int 0)), wk),
      d\<lparr>groups := updateFirst (isGroup groupId)
          (\<lambda>group. group\<lparr>currentIndex :=
              ((currentIndex g + int 0) mod ?n + 1) mod ?n\<rparr>)
          (groups d)\<rparr>)"
    using Cons.prems by (intro getNext_first_eligible) (auto simp: skippedAt_def hasSkip_Nil)
  then have first': "getNextRotationAssignment d groupId wk =
     (Inr (userId (candidateAt (sortedMembers g) (currentIndex g)), wk), ?d1)"
    by (simp add: mod_add_left_eq)
  have isg: "isGroup groupId g" using Cons.prems(1) by (simp add: find_holds)
  have f1: "find (isGroup groupId) (groups ?d1) = Some ?g1"
  proof -
    have "isGroup groupId (?f1 g)" using isg by (simp add: isGroup_def)
    from find_updateFirst_keep[OF Cons.prems(1), of ?f1, OF this] show ?thesis by simp
  qed
  have sm1: "sortedMembers ?g1 = sortedMembers g" by (simp add: sortedMembers_def)
  have c1: "0 \<le> currentIndex ?g1" using Cons.prems(2) by simp
  have IH: "selectMany ?d1 groupId (wk' # wks) =
     (Inr (map (\<lambda>j. userId (candidateAt (sortedMembers ?g1) (currentIndex ?g1 + int j))) [0..<Suc (length wks)]),
      ?d1\<lparr>groups := updateFirst (isGroup groupId)
          (\<lambda>group. group\<lparr>currentIndex := (currentIndex ?g1 + int (Suc (length wks))) mod int (length (members ?g1))\<rparr>)
          (groups ?d1)\<rparr>)"
    using Cons.prems by (intro Cons.IH[OF f1]) simp_all
  have cand: "\<And>j. candidateAt (sortedMembers g) (?c1 + int j) = candidateAt (sortedMembers g) (currentIndex g + int (Suc j))"
  proof -
    fix j
    have "candidateAt (sortedMembers g) ((currentIndex g + 1) mod int (length (sortedMembers g)) + int j)
        = candidateAt (sortedMembers g) ((currentIndex g + 1) + int j)"
      by (rule candidateAt_mod)
    then show "candidateAt (sortedMembers g) (?c1 + int j) = candidateAt (sortedMembers g) (currentIndex g + int (Suc j))"
      by (simp add: length_sortedMembers add.commute add.left_commute)
  qed
  have lst: "map (\<lambda>j. userId (candidateAt (sortedMembers g) (currentIndex g + int j))) [0..<Suc (Suc (length wks))]
      = userId (candidateAt (sortedMembers g) (currentIndex g))
        # map (\<lambda>j. userId (candidateAt (sortedMembers g) (?c1 + int j))) [0..<Suc (length wks)]"
  proof -
    have "[0..<Suc (Suc (length wks))] = 0 # [Suc 0..<Suc (Suc (length wks))]"
      by (rule upt_conv_Cons) simp
    also have "[Suc 0..<Suc (Suc (length wks))] = map Suc [0..<Suc (length wks)]"
      by (rule map_Suc_upt[symmetric])
    finally have "[0..<Suc (Suc (length wks))] = 0 # map Suc [0..<Suc (length wks)]" .
    then show ?thesis by (simp only: list.map map_map o_def cand) simp
  qed
  have cur2: "(?c1 + int (Suc (length wks))) mod ?n = (currentIndex g + int (Suc (Suc (length wks)))) mod ?n"
  proof -
    have "(?c1 + int (Suc (length wks))) mod ?n = ((currentIndex g + 1) + int (Suc (length wks))) mod ?n"
      by (rule mod_add_left_eq)
    also have "(currentIndex g + 1) + int (Suc (length wks)) = currentIndex g + int (Suc (Suc (length wks)))"
      by simp
    finally show ?thesis .
  qed
  have upd: "updateFirst (isGroup groupId)
          (\<lambda>group. group\<lparr>currentIndex := (?c1 + int (Suc (length wks))) mod ?n\<rparr>)
          (updateFirst (isGroup groupId) ?f1 (groups d))
      = updateFirst (isGroup groupId)
          (\<lambda>group. group\<lparr>currentIndex := (currentIndex g + int (Suc (Suc (length wks)))) mod ?n\<rparr>)
          (groups d)"
  proof -
    have comp: "\<And>a b. (\<lambda>group::rgroup. group\<lparr>currentIndex := a\<rparr>) \<circ> (\<lambda>group. group\<lparr>currentIndex := b\<rparr>)
        = (\<lambda>group. group\<lparr>currentIndex := a\<rparr>)"
      by (rule ext) simp
    have "updateFirst (isGroup groupId)
          (\<lambda>group. group\<lparr>currentIndex := (?c1 + int (Suc (length wks))) mod ?n\<rparr>)
          (updateFirst (isGroup groupId) ?f1 (groups d))
      = updateFirst (isGroup groupId)
          ((\<lambda>group. group\<lparr>currentIndex := (?c1 + int (Suc (length wks))) mod ?n\<rparr>) \<circ> ?f1)
          (groups d)"
      by (rule updateFirst_twice) (simp add: isGroup_def)
    then show ?thesis by (simp only: comp cur2)
  qed
  show ?case
    using first' IH lst upd by (simp add: sm1)
qed

lemma mset_rotate1_same: "mset (rotate1 xs) = mset xs"
  by (cases xs) simp_all

lemma mset_rotate_same: "mset (rotate n xs) = mset xs"
  by (induction n) (simp_all add: mset_rotate1_same)

lemma visits_rotate:
  assumes "sm \<noteq> []" "0 \<le> c"
  shows "map (\<lambda>j. userId (candidateAt sm (c + int j))) [0..<length sm]
     = rotate (nat (c mod int (length sm))) (map userId sm)"
proof (rule nth_equalityI)
  show "length (map (\<lambda>j. userId (candidateAt sm (c + int j))) [0..<length sm])
      = length (rotate (nat (c mod int (length sm))) (map userId sm))"
    by simp
next
  fix j assume "j < length (map (\<lambda>j. userId (candidateAt sm (c + int j))) [0..<length sm])"
  then have j: "j < length sm" by simp
  have pos: "0 < int (length sm)" using assms(1) by simp
  have "int ((nat (c mod int (length sm)) + j) mod length sm) = (c mod int (length sm) + int j) mod int (length sm)"
    using pos by (simp add: zmod_int)
  also have "\<dots> = (c + int j) mod int (length sm)" by (rule mod_add_left_eq)
  finally have idx: "nat ((c + int j) mod int (length sm)) = (nat (c mod int (length sm)) + j) mod length sm"
    by (metis nat_int)
  have "rotate (nat (c mod int (length sm))) (map userId sm) ! j
      = map userId sm ! ((nat (c mod int (length sm)) + j) mod length (map userId sm))"
    using j by (intro nth_rotate) simp
  also have "\<dots> = userId (sm ! ((nat (c mod int (length sm)) + j) mod length sm))"
    using assms(1) by simp
  finally show "map (\<lambda>j. userId (candidateAt sm (c + int j))) [0..<length sm] ! j
      = rotate (nat (c mod int (length sm))) (map userId sm) ! j"
    using j by (simp add: candidateAt_def idx)
qed

text \<open>
  Round robin on a group whose cursor is not negative and whose member ids are not
  empty: the selection works on the members sorted by \<open>orderPosition\<close>, scans from the
  cursor, returns the first candidate without a skip week for (user, group, target
  week) and sets the cursor to (index of the assignee + 1) mod n. With no skip weeks, n
  consecutive selections return the sorted members rotated to start at the cursor, each
  member once, and leave the cursor where it started (mod n).
\<close>

lemma selectNext_round_robin:
  assumes g: "find (isGroup groupId) (groups d) = Some g"
    and ne: "members g \<noteq> []"
    and cur: "0 \<le> currentIndex g"
    and ids: "\<forall>m \<in> set (members g). userId m \<noteq> []"
  shows "sorted (map orderPosition (sortedMembers g)) \<and> mset (sortedMembers g) = mset (members g)
    \<and> (k < length (members g)
        \<and> (\<forall>j<k. skippedAt (sortedMembers g) (skipWeeks d) groupId wk (currentIndex g + int j))
        \<and> \<not> skippedAt (sortedMembers g) (skipWeeks d) groupId wk (currentIndex g + int k)
       \<longrightarrow> getNextRotationAssignment d groupId wk =
             (Inr (userId (candidateAt (sortedMembers g) (currentIndex g + int k)), wk),
              d\<lparr>groups := updateFirst (isGroup groupId)
                  (\<lambda>group. group\<lparr>currentIndex :=
                      ((currentIndex g + int k) mod int (length (members g)) + 1) mod int (length (members g))\<rparr>)
                  (groups d)\<rparr>))
    \<and> (skipWeeks d = [] \<and> length wks = length (members g)
       \<longrightarrow> selectMany d groupId wks =
             (Inr (rotate (nat (currentIndex g mod int (length (members g)))) (map userId (sortedMembers g))),
              d\<lparr>groups := updateFirst (isGroup groupId)
                  (\<lambda>group. group\<lparr>currentIndex := currentIndex g mod int (length (members g))\<rparr>)
                  (groups d)\<rparr>)
           \<and> mset (rotate (nat (currentIndex g mod int (length (members g)))) (map userId (sortedMembers g)))
             = mset (map userId (members g)))"
proof (intro conjI impI)
  show "sorted (map orderPosition (sortedMembers g))" by (simp add: sortedMembers_sorted)
  show "mset (sortedMembers g) = mset (members g)" by (simp add: sortedMembers_sorted)
next
  assume "k < length (members g)
        \<and> (\<forall>j<k. skippedAt (sortedMembers g) (skipWeeks d) groupId wk (currentIndex g + int j))
        \<and> \<not> skippedAt (sortedMembers g) (skipWeeks d) groupId wk (currentIndex g + int k)"
  then show "getNextRotationAssignment d groupId wk =
             (Inr (userId (candidateAt (sortedMembers g) (currentIndex g + int k)), wk),
              d\<lparr>groups := updateFirst (isGroup groupId)
                  (\<lambda>group. group\<lparr>currentIndex :=
                      ((currentIndex g + int k) mod int (length (members g)) + 1) mod int (length (members g))\<rparr>)
                  (groups d)\<rparr>)"
    using getNext_first_eligible[OF g ne cur ids, of k wk] by blast
next
  assume a: "skipWeeks d = [] \<and> length wks = length (members g)"
  then obtain w ws where wks: "wks = w # ws" using ne by (cases wks) auto
  have len: "Suc (length ws) = length (sortedMembers g)"
    using a wks by (simp add: length_sortedMembers)
  have n: "int (Suc (length ws)) = int (length (members g))" using a wks by simp
  have "selectMany d groupId (w # ws) =
     (Inr (map (\<lambda>j. userId (candidateAt (sortedMembers g) (currentIndex g + int j))) [0..<Suc (length ws)]),
      d\<lparr>groups := updateFirst (isGroup groupId)
          (\<lambda>group. group\<lparr>currentIndex := (currentIndex g + int (Suc (length ws))) mod int (length (members g))\<rparr>)
          (groups d)\<rparr>)"
    using a by (intro selectMany_no_skips[OF g ne cur ids]) simp
  moreover have "map (\<lambda>j. userId (candidateAt (sortedMembers g) (currentIndex g + int j))) [0..<Suc (length ws)]
      = rotate (nat (currentIndex g mod int (length (members g)))) (map userId (sortedMembers g))"
    using visits_rotate[OF sortedMembers_nonempty[OF ne] cur] by (simp only: len length_sortedMembers)
  moreover have "(currentIndex g + int (Suc (length ws))) mod int (length (members g))
      = currentIndex g mod int (length (members g))"
    by (simp only: n mod_add_self2)
  ultimately show "selectMany d groupId wks =
             (Inr (rotate (nat (currentIndex g mod int (length (members g)))) (map userId (sortedMembers g))),
              d\<lparr>groups := updateFirst (isGroup groupId)
                  (\<lambda>group. group\<lparr>currentIndex := currentIndex g mod int (length (members g))\<rparr>)
                  (groups d)\<rparr>)"
    by (simp only: wks)
next
  assume "skipWeeks d = [] \<and> length wks = length (members g)"
  have "mset (map userId (sortedMembers g)) = mset (map userId (members g))"
    by (simp add: sortedMembers_def)
  then show "mset (rotate (nat (currentIndex g mod int (length (members g)))) (map userId (sortedMembers g)))
             = mset (map userId (members g))"
    by (simp only: mset_rotate_same)
qed

lemma selectNext_round_robin_example:
  "getNextRotationAssignment (storeABC 1 [skipOf ''B'' ''2026-02-16'']) ''g1'' ''2026-02-16''
     = (Inr (''C'', ''2026-02-16''), storeABC 0 [skipOf ''B'' ''2026-02-16''])
   \<and> getNextRotationAssignment (storeABC 0 [skipOf ''B'' ''2026-02-16'']) ''g1'' ''2026-02-23''
     = (Inr (''A'', ''2026-02-23''), storeABC 1 [skipOf ''B'' ''2026-02-16''])
   \<and> selectMany (storeABC 1 []) ''g1'' [''2026-02-16'', ''2026-02-23'', ''2026-03-02'']
     = (Inr [''B'', ''C'', ''A''], storeABC 1 [])"
proof -
  let ?skB = "[skipOf ''B'' ''2026-02-16'']"
  have sm: "\<And>c. sortedMembers (groupABC c) = [memberA, memberB, memberC]"
    by (simp add: sortedMembers_def groupABC_def memberA_def memberB_def memberC_def)
  have f: "\<And>c sk. find (isGroup ''g1'') (groups (storeABC c sk)) = Some (groupABC c)"
    by (simp add: storeABC_def groupABC_def isGroup_def)
  have mem: "\<And>c. members (groupABC c) = [memberC, memberA, memberB]" by (simp add: groupABC_def)
  have m: "\<And>c. members (groupABC c) \<noteq> []" by (simp add: groupABC_def)
  have i: "\<And>c. \<forall>m \<in> set (members (groupABC c)). userId m \<noteq> []"
    by (simp add: groupABC_def memberA_def memberB_def memberC_def)
  have cur: "\<And>c. currentIndex (groupABC c) = c" by (simp add: groupABC_def)
  have sk: "\<And>c s. skipWeeks (storeABC c s) = s" by (simp add: storeABC_def)
  have c1: "0 \<le> currentIndex (groupABC 1)" and c0: "0 \<le> currentIndex (groupABC 0)"
    by (simp_all add: cur)
  have upd: "\<And>c s v. (storeABC c s)\<lparr>groups := updateFirst (isGroup ''g1'')
                (\<lambda>group. group\<lparr>currentIndex := v\<rparr>) (groups (storeABC c s))\<rparr> = storeABC v s"
    by (simp add: storeABC_def groupABC_def isGroup_def)
  have ids: "userId memberA = ''A''" "userId memberB = ''B''" "userId memberC = ''C''"
    by (simp_all add: memberA_def memberB_def memberC_def)
  have skB: "\<And>u w. hasSkip ?skB u ''g1'' w = (u = ''B'' \<and> w = ''2026-02-16'')"
    by (auto simp: hasSkip_def skipOf_def)
  have first: "getNextRotationAssignment (storeABC 1 ?skB) ''g1'' ''2026-02-16''
     = (Inr (''C'', ''2026-02-16''), storeABC 0 ?skB)"
    using selectNext_round_robin[OF f[of 1 ?skB] m c1 i,
        where k = 1 and wk = "''2026-02-16''" and wks = "[]"]
    by (simp add: sm mem cur sk upd ids skB skippedAt_def candidateAt_def)
  have second: "getNextRotationAssignment (storeABC 0 ?skB) ''g1'' ''2026-02-23''
     = (Inr (''A'', ''2026-02-23''), storeABC 1 ?skB)"
    using selectNext_round_robin[OF f[of 0 ?skB] m c0 i,
        where k = 0 and wk = "''2026-02-23''" and wks = "[]"]
    by (simp add: sm mem cur sk upd ids skB skippedAt_def candidateAt_def)
  have third: "selectMany (storeABC 1 []) ''g1'' [''2026-02-16'', ''2026-02-23'', ''2026-03-02'']
     = (Inr [''B'', ''C'', ''A''], storeABC 1 [])"
    using selectNext_round_robin[OF f[of 1 "[]"] m c1 i,
        where k = 0 and wk = "''2026-02-16''" and wks = "[''2026-02-16'', ''2026-02-23'', ''2026-03-02'']"]
    by (simp add: sm mem cur sk upd ids)
  show ?thesis using first second third by blast
qed

theorem selectNext_failures_witness:
  "getNextRotationAssignment (storeOf (groupOf [] 0) []) ''g1'' ''2026-02-16''
     = (Inl EmptyGroup, storeOf (groupOf [] 0) [])
   \<and> getNextRotationAssignment (storeOf (groupOf [memberA] 0) [skipOf ''A'' ''2026-02-16'']) ''g1'' ''2026-02-16''
     = (Inl AllSkipped, storeOf (groupOf [memberA] 0) [skipOf ''A'' ''2026-02-16''])"
proof -
  let ?d0 = "storeOf (groupOf [] 0) []"
  let ?d1 = "storeOf (groupOf [memberA] 0) [skipOf ''A'' ''2026-02-16'']"
  have f0: "find (isGroup ''g1'') (groups ?d0) = Some (groupOf [] 0) \<and> members (groupOf [] 0) = []"
    by (simp add: storeOf_def groupOf_def groupABC_def isGroup_def)
  have f1: "find (isGroup ''g1'') (groups ?d1) = Some (groupOf [memberA] 0)
      \<and> members (groupOf [memberA] 0) \<noteq> [] \<and> 0 \<le> currentIndex (groupOf [memberA] 0)
      \<and> (\<forall>m \<in> set (members (groupOf [memberA] 0)). hasSkip (skipWeeks ?d1) (userId m) ''g1'' ''2026-02-16'')"
    by (simp add: storeOf_def groupOf_def groupABC_def isGroup_def hasSkip_def skipOf_def memberA_def)
  have r0: "fst (getNextRotationAssignment ?d0 ''g1'' ''2026-02-16'') = Inl EmptyGroup"
    and n0: "\<forall>e d'. getNextRotationAssignment ?d0 ''g1'' ''2026-02-16'' = (Inl e, d') \<longrightarrow> d' = ?d0"
    using selectNext_failures[of "''g1''" ?d0 "groupOf [] 0" "''2026-02-16''"] f0 by blast+
  have r1: "fst (getNextRotationAssignment ?d1 ''g1'' ''2026-02-16'') = Inl AllSkipped"
    and n1: "\<forall>e d'. getNextRotationAssignment ?d1 ''g1'' ''2026-02-16'' = (Inl e, d') \<longrightarrow> d' = ?d1"
    using selectNext_failures[of "''g1''" ?d1 "groupOf [memberA] 0" "''2026-02-16''"] f1 by blast+
  have "getNextRotationAssignment ?d0 ''g1'' ''2026-02-16'' = (Inl EmptyGroup, ?d0)"
    using r0 n0 by (metis prod.collapse)
  moreover have "getNextRotationAssignment ?d1 ''g1'' ''2026-02-16'' = (Inl AllSkipped, ?d1)"
    using r1 n1 by (metis prod.collapse)
  ultimately show ?thesis by blast
qed

lemma eval_getNext_ABC5:
  "getNextRotationAssignment (storeABC 5 []) ''g1'' ''2026-02-16''
     = (Inr (''C'', ''2026-02-16''), storeABC 0 [])"
proof -
  have sm: "sortedMembers (groupABC 5) = [memberA, memberB, memberC]"
    by (simp add: sortedMembers_def groupABC_def memberA_def memberB_def memberC_def)
  have scan: "scanLoop [memberA, memberB, memberC] [] ''g1'' ''2026-02-16'' 5 0 = Inr (Some ''C'', 5)"
    by (subst scanLoop.simps) (simp add: jsIndex_def jsRem_def hasSkip_def memberC_def)
  have cur: "currentIndex (groupABC 5) = 5" by (simp add: groupABC_def)
  have mem: "members (groupABC 5) \<noteq> []" by (simp add: groupABC_def)
  have sk: "skipWeeks (storeABC 5 []) = []" by (simp add: storeABC_def)
  have upd: "\<And>v. (storeABC 5 [])\<lparr>groups := updateFirst (isGroup ''g1'')
                (\<lambda>group. group\<lparr>currentIndex := v\<rparr>) (groups (storeABC 5 []))\<rparr> = storeABC v []"
    by (simp add: storeABC_def groupABC_def isGroup_def)
  have "find (isGroup ''g1'') (groups (storeABC 5 [])) = Some (groupABC 5)"
    by (simp add: storeABC_def groupABC_def isGroup_def)
  then show ?thesis
    by (simp add: getNextRotationAssignment_def sm scan cur mem sk upd falsyId_def jsRem_def)
qed


theorem selectNext_cursor_in_range_witness:
  "fst (getNextRotationAssignment (storeABC 5 []) ''g1'' ''2026-02-16'') \<noteq> Inl TypeError
   \<and> (\<exists>g'. find (isGroup ''g1'')
               (groups (snd (getNextRotationAssignment (storeABC 5 []) ''g1'' ''2026-02-16''))) = Some g'
          \<and> members g' = members (groupABC 5)
          \<and> 0 \<le> currentIndex g' \<and> currentIndex g' < int (length (members g')))"
proof -
  have f: "find (isGroup ''g1'') (groups (storeABC 5 [])) = Some (groupABC 5)"
    by (simp add: storeABC_def groupABC_def isGroup_def)
  have m: "members (groupABC 5) \<noteq> []" by (simp add: groupABC_def)
  have c: "0 \<le> currentIndex (groupABC 5)" by (simp add: groupABC_def)
  note range = selectNext_cursor_in_range[OF f m c, of "''2026-02-16''"]
  from range have "fst (getNextRotationAssignment (storeABC 5 []) ''g1'' ''2026-02-16'') \<noteq> Inl TypeError"
    by (rule conjunct1)
  moreover from range eval_getNext_ABC5
  have "\<exists>g'. find (isGroup ''g1'') (groups (storeABC 0 [])) = Some g'
          \<and> members g' = members (groupABC 5)
          \<and> 0 \<le> currentIndex g' \<and> currentIndex g' < int (length (members g'))"
    by blast
  ultimately show ?thesis by (simp add: eval_getNext_ABC5)
qed

section \<open>Properties of the calendar integration\<close>





lemma extAt_simps:
  "refreshAccessToken (extAt now) cs tk = Some freshTokens"
  "eventsInsert (extAt now) cs tk ev = Some (''evt-'' @ natToString (length cs))"
  "eventsDelete (extAt now) cs tk eventId = True"
  "writeFile (extAt now) cs d = True"
  "dateNow (extAt now) cs = now"
  "isoNow (extAt now) cs = ''now''"
  "dateParse (extAt now) = utcDateMs"
  "generateId (extAt now) cs prefix = prefix @ ''-'' @ natToString (length cs)"
  "addWeeks (extAt now) sd k = addDaysIso sd (7 * k)"
  by (simp_all add: extAt_def)


section \<open>Properties of swap and cancel\<close>

lemma saveData_cases:
  "saveData x s = (r, s') \<Longrightarrow>
     data s' = data s \<and> calls s' = calls s @ [Save (data s)]
     \<and> ((r = Inr () \<and> writeFile x (calls s) (data s) \<and> disk s' = data s)
        \<or> (r = Inl SaveFailure \<and> \<not> writeFile x (calls s) (data s) \<and> disk s' = disk s))"
  by (auto simp: saveData_def split: if_splits)

lemma delete_frame:
  "deleteCalendarEvent x uid eventId s = (r, s') \<Longrightarrow> data s' = data s \<and> disk s' = disk s"
  by (auto simp: deleteCalendarEvent_def Let_def split: option.splits if_splits)

lemma deleteIfEvent_frame:
  "deleteIfEvent x uid rot s = (r, s') \<Longrightarrow> data s' = data s \<and> disk s' = disk s"
  by (auto simp: deleteIfEvent_def dest: delete_frame split: if_splits)

lemma create_frame:
  assumes "createCalendarEvent x uid groupId wk s = (r, s')"
  shows "(data s' = data s \<and> disk s' = disk s)
     \<or> (\<exists>a. data s' = refreshedData s uid a \<and> (disk s' = disk s \<or> disk s' = data s'))"
  using assms
  by (cases s)
     (auto simp: createCalendarEvent_def saveData_def refreshedData_def Let_def
           split: option.splits if_splits)

lemma refreshedData_frame:
  "rotations (refreshedData s uid a) = rotations (data s)"
  "groups (refreshedData s uid a) = groups (data s)"
  "skipWeeks (refreshedData s uid a) = skipWeeks (data s)"
  by (simp_all add: refreshedData_def)

lemma create_keeps_ledger:
  assumes "createCalendarEvent x uid groupId wk s = (r, s')"
  shows "rotations (data s') = rotations (data s) \<and> groups (data s') = groups (data s)
     \<and> skipWeeks (data s') = skipWeeks (data s)"
  using create_frame[OF assms] by (auto simp: refreshedData_frame)

lemma updateFirst_split:
  "find p xs = Some y \<Longrightarrow>
     \<exists>pre post. xs = pre @ y # post \<and> list_all (\<lambda>q. \<not> p q) pre \<and> p y
        \<and> updateFirst p f xs = pre @ f y # post"
proof (induction xs)
  case Nil
  then show ?case by simp
next
  case (Cons a xs)
  show ?case
  proof (cases "p a")
    case True
    with Cons.prems have "a = y" by simp
    with True have "a # xs = [] @ y # xs \<and> list_all (\<lambda>q. \<not> p q) [] \<and> p y
        \<and> updateFirst p f (a # xs) = [] @ f y # xs" by simp
    then show ?thesis by blast
  next
    case False
    with Cons.prems have "find p xs = Some y" by simp
    from Cons.IH[OF this] obtain pre post where
      "xs = pre @ y # post" "list_all (\<lambda>q. \<not> p q) pre" "p y" "updateFirst p f xs = pre @ f y # post"
      by blast
    with False have "a # xs = (a # pre) @ y # post \<and> list_all (\<lambda>q. \<not> p q) (a # pre) \<and> p y
        \<and> updateFirst p f (a # xs) = (a # pre) @ f y # post" by simp
    then show ?thesis by blast
  qed
qed

lemma postSwap_success:
  assumes "postSwap x groupId wk fromUserId toUserId s = (Inr res, s')"
  shows "\<exists>rot s1 s2 newEventId.
      find (isSwapTarget groupId wk fromUserId) (rotations (data s)) = Some rot
    \<and> deleteIfEvent x fromUserId rot s = (Inr (), s1)
    \<and> createCalendarEvent x toUserId groupId wk s1 = (Inr newEventId, s2)
    \<and> data s' = (data s2)\<lparr>rotations :=
          updateFirst (isSwapTarget groupId wk fromUserId)
            (\<lambda>r. r\<lparr>assignedUserId := toUserId, calendarEventId := newEventId,
                   swappedAt := Some (isoNow x (calls s2))\<rparr>)
            (rotations (data s2))\<rparr>
    \<and> disk s' = data s'"
  using assms
  by (auto simp: postSwap_def Let_def saveData_def split: option.splits prod.splits sum.splits if_splits)

lemma create_success_cases:
  assumes "createCalendarEvent x uid groupId wk s = (Inr eventId, s')"
  shows "\<exists>u tk. find (isUser uid) (users (data s)) = Some u \<and> googleTokens u = Some tk
     \<and> (if expiry_date tk \<le> dateNow x (calls s)
         then \<exists>a. refreshAccessToken x (calls s) tk = Some a
                \<and> data s' = refreshedData s uid a \<and> disk s' = data s'
         else data s' = data s \<and> disk s' = disk s)"
  using assms
  by (cases s)
     (auto simp: createCalendarEvent_def saveData_def refreshedData_def Let_def
           split: option.splits if_splits)

text \<open>
  C6, as amended. A successful swap leaves the groups (and so every cursor) and the skip
  weeks as they were, and changes the rotation list at one position only, that of the
  first rotation matching (group, week, previous assignee): there the assignee becomes
  the new user, the event id and \<open>swappedAt\<close> are set, and the id, group, week, status
  and creation time stay. Besides the rotation, the swap changes the user list in one
  case: when the stored credentials of the new assignee have expired at the moment the
  new event is created, they are replaced by the refreshed ones; otherwise the users
  stay as they were. The file holds the resulting store.
\<close>

theorem swap_frame:
  assumes "postSwap x groupId wk fromUserId toUserId s = (Inr res, s')"
  shows "groups (data s') = groups (data s) \<and> skipWeeks (data s') = skipWeeks (data s)
    \<and> disk s' = data s'
    \<and> (\<exists>pre rot post rot' u tk.
          rotations (data s) = pre @ rot # post
        \<and> list_all (\<lambda>q. \<not> isSwapTarget groupId wk fromUserId q) pre
        \<and> isSwapTarget groupId wk fromUserId rot
        \<and> rotations (data s') = pre @ rot' # post
        \<and> assignedUserId rot' = toUserId
        \<and> r_id rot' = r_id rot \<and> r_groupId rot' = r_groupId rot
        \<and> r_weekStartDate rot' = r_weekStartDate rot
        \<and> status rot' = status rot \<and> createdAt rot' = createdAt rot
        \<and> find (isUser toUserId) (users (data s)) = Some u \<and> googleTokens u = Some tk
        \<and> (if expiry_date tk \<le> dateNow x (calls (snd (deleteIfEvent x fromUserId rot s)))
            then \<exists>a. refreshAccessToken x (calls (snd (deleteIfEvent x fromUserId rot s))) tk = Some a
                   \<and> users (data s')
                       = updateFirst (isUser toUserId) (\<lambda>user. user\<lparr>googleTokens := Some a\<rparr>) (users (data s))
            else users (data s') = users (data s)))"
proof -
  from postSwap_success[OF assms] obtain rot s1 s2 newEventId where
    f: "find (isSwapTarget groupId wk fromUserId) (rotations (data s)) = Some rot"
    and d: "deleteIfEvent x fromUserId rot s = (Inr (), s1)"
    and c: "createCalendarEvent x toUserId groupId wk s1 = (Inr newEventId, s2)"
    and s': "data s' = (data s2)\<lparr>rotations :=
          updateFirst (isSwapTarget groupId wk fromUserId)
            (\<lambda>r. r\<lparr>assignedUserId := toUserId, calendarEventId := newEventId,
                   swappedAt := Some (isoNow x (calls s2))\<rparr>)
            (rotations (data s2))\<rparr>"
    and k: "disk s' = data s'"
    by blast
  let ?assign = "\<lambda>r. r\<lparr>assignedUserId := toUserId, calendarEventId := newEventId,
                   swappedAt := Some (isoNow x (calls s2))\<rparr>"
  have d1: "data s1 = data s" using deleteIfEvent_frame[OF d] by simp
  have s1: "snd (deleteIfEvent x fromUserId rot s) = s1" using d by simp
  have l2: "rotations (data s2) = rotations (data s) \<and> groups (data s2) = groups (data s)
     \<and> skipWeeks (data s2) = skipWeeks (data s)"
    using create_keeps_ledger[OF c] d1 by simp
  from create_success_cases[OF c] obtain u tk where
    u: "find (isUser toUserId) (users (data s)) = Some u" "googleTokens u = Some tk"
    and cs: "if expiry_date tk \<le> dateNow x (calls s1)
         then \<exists>a. refreshAccessToken x (calls s1) tk = Some a
                \<and> data s2 = refreshedData s1 toUserId a \<and> disk s2 = data s2
         else data s2 = data s1 \<and> disk s2 = disk s1"
    using d1 by auto
  have us: "if expiry_date tk \<le> dateNow x (calls s1)
            then \<exists>a. refreshAccessToken x (calls s1) tk = Some a
                   \<and> users (data s')
                       = updateFirst (isUser toUserId) (\<lambda>user. user\<lparr>googleTokens := Some a\<rparr>) (users (data s))
            else users (data s') = users (data s)"
  proof (cases "expiry_date tk \<le> dateNow x (calls s1)")
    case True
    with cs obtain a where "refreshAccessToken x (calls s1) tk = Some a" "data s2 = refreshedData s1 toUserId a"
      by auto
    with True s' d1 show ?thesis by (auto simp: refreshedData_def)
  next
    case False
    with cs s' d1 show ?thesis by simp
  qed
  from updateFirst_split[OF f, of ?assign] obtain pre post where
    sp: "rotations (data s) = pre @ rot # post"
      "list_all (\<lambda>q. \<not> isSwapTarget groupId wk fromUserId q) pre"
      "isSwapTarget groupId wk fromUserId rot"
      "updateFirst (isSwapTarget groupId wk fromUserId) ?assign (rotations (data s)) = pre @ ?assign rot # post"
    by blast
  have rs: "rotations (data s') = pre @ ?assign rot # post"
    using s' l2 sp(4) by simp
  have "rotations (data s) = pre @ rot # post
        \<and> list_all (\<lambda>q. \<not> isSwapTarget groupId wk fromUserId q) pre
        \<and> isSwapTarget groupId wk fromUserId rot
        \<and> rotations (data s') = pre @ ?assign rot # post
        \<and> assignedUserId (?assign rot) = toUserId
        \<and> r_id (?assign rot) = r_id rot \<and> r_groupId (?assign rot) = r_groupId rot
        \<and> r_weekStartDate (?assign rot) = r_weekStartDate rot
        \<and> status (?assign rot) = status rot \<and> createdAt (?assign rot) = createdAt rot
        \<and> find (isUser toUserId) (users (data s)) = Some u \<and> googleTokens u = Some tk
        \<and> (if expiry_date tk \<le> dateNow x (calls (snd (deleteIfEvent x fromUserId rot s)))
            then \<exists>a. refreshAccessToken x (calls (snd (deleteIfEvent x fromUserId rot s))) tk = Some a
                   \<and> users (data s')
                       = updateFirst (isUser toUserId) (\<lambda>user. user\<lparr>googleTokens := Some a\<rparr>) (users (data s))
            else users (data s') = users (data s))"
    using sp(1,2,3) rs u us by (simp only: s1) simp
  then have ex: "\<exists>pre rot post rot' u tk.
          rotations (data s) = pre @ rot # post
        \<and> list_all (\<lambda>q. \<not> isSwapTarget groupId wk fromUserId q) pre
        \<and> isSwapTarget groupId wk fromUserId rot
        \<and> rotations (data s') = pre @ rot' # post
        \<and> assignedUserId rot' = toUserId
        \<and> r_id rot' = r_id rot \<and> r_groupId rot' = r_groupId rot
        \<and> r_weekStartDate rot' = r_weekStartDate rot
        \<and> status rot' = status rot \<and> createdAt rot' = createdAt rot
        \<and> find (isUser toUserId) (users (data s)) = Some u \<and> googleTokens u = Some tk
        \<and> (if expiry_date tk \<le> dateNow x (calls (snd (deleteIfEvent x fromUserId rot s)))
            then \<exists>a. refreshAccessToken x (calls (snd (deleteIfEvent x fromUserId rot s))) tk = Some a
                   \<and> users (data s')
                       = updateFirst (isUser toUserId) (\<lambda>user. user\<lparr>googleTokens := Some a\<rparr>) (users (data s))
            else users (data s') = users (data s))"
    by blast
  have "groups (data s') = groups (data s)" "skipWeeks (data s') = skipWeeks (data s)"
    using s' l2 by simp_all
  with ex k show ?thesis by blast
qed

lemma natToString_small: "natToString 0 = ''0''" "natToString (Suc 0) = ''1''" "natToString 2 = ''2''"
  "natToString 3 = ''3''" "natToString 4 = ''4''" "natToString 5 = ''5''"
  by (simp_all add: natToString.simps)

lemma demoStore_sel:
  "users (demoStore us rs) = us" "groups (demoStore us rs) = [groupABC 0]"
  "skipWeeks (demoStore us rs) = []" "rotations (demoStore us rs) = rs"
  by (simp_all add: demoStore_def)

lemma stateOf_sel: "data (stateOf d) = d" "disk (stateOf d) = d" "calls (stateOf d) = []"
  by (simp_all add: stateOf_def)

lemma eval_swap:
  "postSwap (extAt 2000) ''g1'' ''2026-02-16'' ''A'' ''D''
     (stateOf (demoStore [userOf ''A'' (Some freshTokens), userOf ''D'' (Some freshTokens)]
        [rotOf ''rot-1'' ''A'' ''2026-02-16'' ''evt-0'', rotOf ''rot-2'' ''B'' ''2026-02-23'' ''evt-1'']))
   = (Inr ((rotOf ''rot-1'' ''D'' ''2026-02-16'' ''evt-1'')\<lparr>swappedAt := Some ''now''\<rparr>, ''D''),
      \<lparr>data = demoStore [userOf ''A'' (Some freshTokens), userOf ''D'' (Some freshTokens)]
                [(rotOf ''rot-1'' ''D'' ''2026-02-16'' ''evt-1'')\<lparr>swappedAt := Some ''now''\<rparr>,
                 rotOf ''rot-2'' ''B'' ''2026-02-23'' ''evt-1''],
        disk = demoStore [userOf ''A'' (Some freshTokens), userOf ''D'' (Some freshTokens)]
                [(rotOf ''rot-1'' ''D'' ''2026-02-16'' ''evt-1'')\<lparr>swappedAt := Some ''now''\<rparr>,
                 rotOf ''rot-2'' ''B'' ''2026-02-23'' ''evt-1''],
        calls = [Delete freshTokens ''evt-0'',
                 Insert freshTokens (buildEvent (groupABC 0) ''2026-02-16''),
                 Save (demoStore [userOf ''A'' (Some freshTokens), userOf ''D'' (Some freshTokens)]
                        [(rotOf ''rot-1'' ''D'' ''2026-02-16'' ''evt-1'')\<lparr>swappedAt := Some ''now''\<rparr>,
                         rotOf ''rot-2'' ''B'' ''2026-02-23'' ''evt-1''])]\<rparr>)"
  by (simp add: postSwap_def deleteIfEvent_def deleteCalendarEvent_def createCalendarEvent_def
      saveData_def extAt_simps stateOf_def demoStore_def userOf_def rotOf_def isUser_def isGroup_def
      isSwapTarget_def freshTokens_def natToString_small Let_def groupABC_def)

theorem swap_frame_witness:
  "groups (data (snd (postSwap (extAt 2000) ''g1'' ''2026-02-16'' ''A'' ''D''
     (stateOf (demoStore [userOf ''A'' (Some freshTokens), userOf ''D'' (Some freshTokens)]
        [rotOf ''rot-1'' ''A'' ''2026-02-16'' ''evt-0'', rotOf ''rot-2'' ''B'' ''2026-02-23'' ''evt-1''])))))
     = [groupABC 0]
   \<and> rotations (data (snd (postSwap (extAt 2000) ''g1'' ''2026-02-16'' ''A'' ''D''
     (stateOf (demoStore [userOf ''A'' (Some freshTokens), userOf ''D'' (Some freshTokens)]
        [rotOf ''rot-1'' ''A'' ''2026-02-16'' ''evt-0'', rotOf ''rot-2'' ''B'' ''2026-02-23'' ''evt-1''])))))
     = [(rotOf ''rot-1'' ''D'' ''2026-02-16'' ''evt-1'')\<lparr>swappedAt := Some ''now''\<rparr>,
        rotOf ''rot-2'' ''B'' ''2026-02-23'' ''evt-1'']
   \<and> users (data (snd (postSwap (extAt 2000) ''g1'' ''2026-02-16'' ''A'' ''D''
     (stateOf (demoStore [userOf ''A'' (Some freshTokens), userOf ''D'' (Some freshTokens)]
        [rotOf ''rot-1'' ''A'' ''2026-02-16'' ''evt-0'', rotOf ''rot-2'' ''B'' ''2026-02-23'' ''evt-1''])))))
     = [userOf ''A'' (Some freshTokens), userOf ''D'' (Some freshTokens)]"
proof -
  let ?s = "stateOf (demoStore [userOf ''A'' (Some freshTokens), userOf ''D'' (Some freshTokens)]
        [rotOf ''rot-1'' ''A'' ''2026-02-16'' ''evt-0'', rotOf ''rot-2'' ''B'' ''2026-02-23'' ''evt-1''])"
  have "groups (data (snd (postSwap (extAt 2000) ''g1'' ''2026-02-16'' ''A'' ''D'' ?s))) = groups (data ?s)"
    using swap_frame[OF eval_swap] by (simp add: eval_swap)
  moreover have "groups (data ?s) = [groupABC 0]" by (simp add: stateOf_sel demoStore_sel)
  ultimately show ?thesis by (simp add: eval_swap demoStore_sel)
qed

lemma natToString_three: "natToString (Suc (Suc (Suc 0))) = ''3''"
  using natToString_small(4) by (simp add: numeral_3_eq_3)

lemma eval_swap_expired:
  "postSwap (extAt 2000) ''g1'' ''2026-02-16'' ''A'' ''D''
     (stateOf (demoStore [userOf ''A'' (Some freshTokens), userOf ''D'' (Some oldTokens)]
        [rotOf ''rot-1'' ''A'' ''2026-02-16'' ''evt-0'', rotOf ''rot-2'' ''B'' ''2026-02-23'' ''evt-1'']))
   = (Inr ((rotOf ''rot-1'' ''D'' ''2026-02-16'' ''evt-3'')\<lparr>swappedAt := Some ''now''\<rparr>, ''D''),
      \<lparr>data = demoStore [userOf ''A'' (Some freshTokens), userOf ''D'' (Some freshTokens)]
                [(rotOf ''rot-1'' ''D'' ''2026-02-16'' ''evt-3'')\<lparr>swappedAt := Some ''now''\<rparr>,
                 rotOf ''rot-2'' ''B'' ''2026-02-23'' ''evt-1''],
        disk = demoStore [userOf ''A'' (Some freshTokens), userOf ''D'' (Some freshTokens)]
                [(rotOf ''rot-1'' ''D'' ''2026-02-16'' ''evt-3'')\<lparr>swappedAt := Some ''now''\<rparr>,
                 rotOf ''rot-2'' ''B'' ''2026-02-23'' ''evt-1''],
        calls = [Delete freshTokens ''evt-0'',
                 Refresh oldTokens,
                 Save (demoStore [userOf ''A'' (Some freshTokens), userOf ''D'' (Some freshTokens)]
                        [rotOf ''rot-1'' ''A'' ''2026-02-16'' ''evt-0'', rotOf ''rot-2'' ''B'' ''2026-02-23'' ''evt-1'']),
                 Insert freshTokens (buildEvent (groupABC 0) ''2026-02-16''),
                 Save (demoStore [userOf ''A'' (Some freshTokens), userOf ''D'' (Some freshTokens)]
                        [(rotOf ''rot-1'' ''D'' ''2026-02-16'' ''evt-3'')\<lparr>swappedAt := Some ''now''\<rparr>,
                         rotOf ''rot-2'' ''B'' ''2026-02-23'' ''evt-1''])]\<rparr>)"
  by (simp add: postSwap_def deleteIfEvent_def deleteCalendarEvent_def createCalendarEvent_def
      saveData_def extAt_simps stateOf_def demoStore_def userOf_def rotOf_def isUser_def isGroup_def
      isSwapTarget_def freshTokens_def oldTokens_def natToString_three Let_def groupABC_def)

text \<open>
  C6 as stated fails: a successful swap to a user whose stored credentials have expired
  changes, besides the three fields of the rotation, that user's credentials, in memory
  and in the file.
\<close>

theorem swap_refresh_counterexample:
  "fst (postSwap (extAt 2000) ''g1'' ''2026-02-16'' ''A'' ''D''
     (stateOf (demoStore [userOf ''A'' (Some freshTokens), userOf ''D'' (Some oldTokens)]
        [rotOf ''rot-1'' ''A'' ''2026-02-16'' ''evt-0'', rotOf ''rot-2'' ''B'' ''2026-02-23'' ''evt-1''])))
     = Inr ((rotOf ''rot-1'' ''D'' ''2026-02-16'' ''evt-3'')\<lparr>swappedAt := Some ''now''\<rparr>, ''D'')
   \<and> users (data (stateOf (demoStore [userOf ''A'' (Some freshTokens), userOf ''D'' (Some oldTokens)]
        [rotOf ''rot-1'' ''A'' ''2026-02-16'' ''evt-0'', rotOf ''rot-2'' ''B'' ''2026-02-23'' ''evt-1''])))
     = [userOf ''A'' (Some freshTokens), userOf ''D'' (Some oldTokens)]
   \<and> users (data (snd (postSwap (extAt 2000) ''g1'' ''2026-02-16'' ''A'' ''D''
     (stateOf (demoStore [userOf ''A'' (Some freshTokens), userOf ''D'' (Some oldTokens)]
        [rotOf ''rot-1'' ''A'' ''2026-02-16'' ''evt-0'', rotOf ''rot-2'' ''B'' ''2026-02-23'' ''evt-1''])))))
     = [userOf ''A'' (Some freshTokens), userOf ''D'' (Some freshTokens)]
   \<and> users (disk (snd (postSwap (extAt 2000) ''g1'' ''2026-02-16'' ''A'' ''D''
     (stateOf (demoStore [userOf ''A'' (Some freshTokens), userOf ''D'' (Some oldTokens)]
        [rotOf ''rot-1'' ''A'' ''2026-02-16'' ''evt-0'', rotOf ''rot-2'' ''B'' ''2026-02-23'' ''evt-1''])))))
     = [userOf ''A'' (Some freshTokens), userOf ''D'' (Some freshTokens)]
   \<and> userOf ''D'' (Some oldTokens) \<noteq> userOf ''D'' (Some freshTokens)"
proof -
  have "userOf ''D'' (Some oldTokens) \<noteq> userOf ''D'' (Some freshTokens)"
    by (simp add: userOf_def oldTokens_def freshTokens_def)
  then show ?thesis by (simp add: eval_swap_expired stateOf_sel demoStore_sel)
qed

lemma create_success_user:
  assumes "createCalendarEvent x uid groupId wk s = (Inr eventId, s')"
  shows "find (isUser uid) (users (data s')) \<noteq> None"
proof -
  from assms obtain u tk where u: "find (isUser uid) (users (data s)) = Some u" "googleTokens u = Some tk"
    by (auto simp: createCalendarEvent_def split: option.splits)
  have keep: "\<And>a. find (isUser uid) (users (refreshedData s uid a)) \<noteq> None"
  proof -
    fix a
    have "isUser uid (u\<lparr>googleTokens := Some a\<rparr>)" using find_holds[OF u(1)] by (simp add: isUser_def)
    from find_updateFirst_keep[OF u(1), of "\<lambda>user. user\<lparr>googleTokens := Some a\<rparr>", OF this]
    show "find (isUser uid) (users (refreshedData s uid a)) \<noteq> None"
      by (simp add: refreshedData_def)
  qed
  from create_frame[OF assms] show ?thesis using u(1) keep by auto
qed

lemma postSwap_error_cases:
  assumes "postSwap x groupId wk fromUserId toUserId s = (Inl e, s')"
  shows "(find (isSwapTarget groupId wk fromUserId) (rotations (data s)) = None
            \<and> e = RotationNotFound \<and> s' = s)
     \<or> (\<exists>rot. find (isSwapTarget groupId wk fromUserId) (rotations (data s)) = Some rot
            \<and> deleteIfEvent x fromUserId rot s = (Inl e, s'))
     \<or> (\<exists>rot s1. find (isSwapTarget groupId wk fromUserId) (rotations (data s)) = Some rot
            \<and> deleteIfEvent x fromUserId rot s = (Inr (), s1)
            \<and> createCalendarEvent x toUserId groupId wk s1 = (Inl e, s'))
     \<or> (\<exists>rot s1 newEventId s2.
              find (isSwapTarget groupId wk fromUserId) (rotations (data s)) = Some rot
            \<and> deleteIfEvent x fromUserId rot s = (Inr (), s1)
            \<and> createCalendarEvent x toUserId groupId wk s1 = (Inr newEventId, s2)
            \<and> e = SaveFailure
            \<and> \<not> writeFile x (calls s2) (data s')
            \<and> calls s' = calls s2 @ [Save (data s')]
            \<and> disk s' = disk s2
            \<and> data s' = (data s2)\<lparr>rotations :=
                  updateFirst (isSwapTarget groupId wk fromUserId)
                    (\<lambda>r. r\<lparr>assignedUserId := toUserId, calendarEventId := newEventId,
                           swappedAt := Some (isoNow x (calls s2))\<rparr>)
                    (rotations (data s2))\<rparr>)"
proof (cases "find (isSwapTarget groupId wk fromUserId) (rotations (data s))")
  case None
  with assms show ?thesis by (simp add: postSwap_def)
next
  case (Some rot)
  obtain r1 s1 where d: "deleteIfEvent x fromUserId rot s = (r1, s1)" by (cases "deleteIfEvent x fromUserId rot s")
  show ?thesis
  proof (cases r1)
    case (Inl e1)
    with assms Some d show ?thesis by (simp add: postSwap_def)
  next
    case (Inr u1)
    obtain r2 s2 where c: "createCalendarEvent x toUserId groupId wk s1 = (r2, s2)"
      by (cases "createCalendarEvent x toUserId groupId wk s1")
    show ?thesis
    proof (cases r2)
      case (Inl e2)
      with assms Some d Inr c show ?thesis by (simp add: postSwap_def)
    next
      case (Inr newEventId)
      have "find (isUser toUserId) (users (data s2)) \<noteq> None"
        using c Inr create_success_user by blast
      with assms Some d \<open>r1 = Inr u1\<close> c Inr show ?thesis
        by (auto simp: postSwap_def Let_def saveData_def split: if_splits option.splits)
    qed
  qed
qed

lemma deleteRotation_error_cases:
  assumes "deleteRotation x rotationId s = (Inl e, s')"
  shows "(find (\<lambda>r. r_id r = rotationId) (rotations (data s)) = None
            \<and> e = RotationNotFound \<and> s' = s)
     \<or> (\<exists>rot. find (\<lambda>r. r_id r = rotationId) (rotations (data s)) = Some rot
            \<and> deleteIfEvent x (assignedUserId rot) rot s = (Inl e, s'))
     \<or> (\<exists>rot s1.
              find (\<lambda>r. r_id r = rotationId) (rotations (data s)) = Some rot
            \<and> deleteIfEvent x (assignedUserId rot) rot s = (Inr (), s1)
            \<and> e = SaveFailure
            \<and> \<not> writeFile x (calls s1) (data s')
            \<and> calls s' = calls s1 @ [Save (data s')]
            \<and> disk s' = disk s1
            \<and> data s' = (data s1)\<lparr>rotations :=
                  filter (\<lambda>r. r_id r \<noteq> rotationId) (rotations (data s1))\<rparr>)"
proof (cases "find (\<lambda>r. r_id r = rotationId) (rotations (data s))")
  case None
  with assms show ?thesis by (simp add: deleteRotation_def)
next
  case (Some rot)
  obtain r1 s1 where d: "deleteIfEvent x (assignedUserId rot) rot s = (r1, s1)"
    by (cases "deleteIfEvent x (assignedUserId rot) rot s")
  show ?thesis
  proof (cases r1)
    case (Inl e1)
    with assms Some d show ?thesis by (simp add: deleteRotation_def)
  next
    case (Inr u1)
    with assms Some d show ?thesis
      by (auto simp: deleteRotation_def saveData_def split: if_splits)
  qed
qed

lemma create_disk_rotations:
  assumes "createCalendarEvent x uid groupId wk s = (r, s')"
    and "rotations (disk s) = rotations (data s)"
  shows "rotations (disk s') = rotations (disk s)"
  using create_frame[OF assms(1)] create_keeps_ledger[OF assms(1)] assms(2) by auto

lemma postSwap_error_disk:
  assumes "postSwap x groupId wk fromUserId toUserId s = (Inl e, s')"
    and agree: "rotations (disk s) = rotations (data s)"
  shows "rotations (disk s') = rotations (disk s)"
proof (cases "find (isSwapTarget groupId wk fromUserId) (rotations (data s))")
  case None
  with assms show ?thesis by (simp add: postSwap_def)
next
  case (Some rot)
  obtain r1 s1 where d: "deleteIfEvent x fromUserId rot s = (r1, s1)" by (cases "deleteIfEvent x fromUserId rot s")
  have d1: "data s1 = data s \<and> disk s1 = disk s" using deleteIfEvent_frame[OF d] by simp
  show ?thesis
  proof (cases r1)
    case (Inl e1)
    with assms Some d d1 show ?thesis by (simp add: postSwap_def)
  next
    case (Inr u1)
    obtain r2 s2 where c: "createCalendarEvent x toUserId groupId wk s1 = (r2, s2)"
      by (cases "createCalendarEvent x toUserId groupId wk s1")
    have k2: "rotations (disk s2) = rotations (disk s)"
      using create_disk_rotations[OF c] d1 agree by simp
    show ?thesis
    proof (cases r2)
      case (Inl e2)
      with assms Some d Inr c k2 show ?thesis by (simp add: postSwap_def)
    next
      case (Inr newEventId)
      have "find (isUser toUserId) (users (data s2)) \<noteq> None"
        using c Inr create_success_user by blast
      with assms Some d \<open>r1 = Inr u1\<close> c Inr k2 show ?thesis
        by (auto simp: postSwap_def Let_def saveData_def split: if_splits option.splits)
    qed
  qed
qed

lemma deleteRotation_error_disk:
  assumes "deleteRotation x rotationId s = (Inl e, s')"
  shows "disk s' = disk s"
proof (cases "find (\<lambda>r. r_id r = rotationId) (rotations (data s))")
  case None
  with assms show ?thesis by (simp add: deleteRotation_def)
next
  case (Some rot)
  obtain r1 s1 where d: "deleteIfEvent x (assignedUserId rot) rot s = (r1, s1)"
    by (cases "deleteIfEvent x (assignedUserId rot) rot s")
  have d1: "data s1 = data s \<and> disk s1 = disk s" using deleteIfEvent_frame[OF d] by simp
  show ?thesis
  proof (cases r1)
    case (Inl e1)
    with assms Some d d1 show ?thesis by (simp add: deleteRotation_def)
  next
    case (Inr u1)
    with assms Some d d1 show ?thesis
      by (auto simp: deleteRotation_def saveData_def split: if_splits)
  qed
qed

text \<open>
  C5, as amended. Whenever the swap or the cancel handler returns an error, the error
  comes from exactly one of its steps. If it is the lookup of the rotation, the deletion
  of the existing calendar event or, for a swap, the creation of the replacement event
  (a failed refresh of the credentials and a rejected save of the refreshed credentials
  included), the rotation list in memory is the one the handler started with. The one
  exception is the handler's own last step, the write of the already changed store to
  the file after deletion and creation have succeeded: when that write is rejected, the
  list in memory holds the reassigned (swap) or lacks the removed (cancel) rotation. A
  failed cancel leaves the file as it was; a failed swap leaves the rotation list in the
  file as it was if that list agreed with the one in memory when the swap began.
\<close>

theorem swap_cancel_error_frame:
  "(postSwap x groupId wk fromUserId toUserId s = (Inl e, s') \<longrightarrow>
       ((find (isSwapTarget groupId wk fromUserId) (rotations (data s)) = None
            \<and> e = RotationNotFound \<and> s' = s)
        \<or> (\<exists>rot. find (isSwapTarget groupId wk fromUserId) (rotations (data s)) = Some rot
            \<and> deleteIfEvent x fromUserId rot s = (Inl e, s')
            \<and> rotations (data s') = rotations (data s))
        \<or> (\<exists>rot s1. find (isSwapTarget groupId wk fromUserId) (rotations (data s)) = Some rot
            \<and> deleteIfEvent x fromUserId rot s = (Inr (), s1)
            \<and> createCalendarEvent x toUserId groupId wk s1 = (Inl e, s')
            \<and> rotations (data s') = rotations (data s))
        \<or> (\<exists>rot s1 newEventId s2.
              find (isSwapTarget groupId wk fromUserId) (rotations (data s)) = Some rot
            \<and> deleteIfEvent x fromUserId rot s = (Inr (), s1)
            \<and> createCalendarEvent x toUserId groupId wk s1 = (Inr newEventId, s2)
            \<and> e = SaveFailure
            \<and> \<not> writeFile x (calls s2) (data s')
            \<and> calls s' = calls s2 @ [Save (data s')]
            \<and> disk s' = disk s2
            \<and> rotations (data s')
                = updateFirst (isSwapTarget groupId wk fromUserId)
                    (\<lambda>r. r\<lparr>assignedUserId := toUserId, calendarEventId := newEventId,
                           swappedAt := Some (isoNow x (calls s2))\<rparr>)
                    (rotations (data s))))
       \<and> (rotations (disk s) = rotations (data s) \<longrightarrow> rotations (disk s') = rotations (disk s)))
   \<and> (find (isSwapTarget groupId wk fromUserId) (rotations (data s)) = Some rot
        \<and> deleteIfEvent x fromUserId rot s = (Inr (), s1)
        \<and> createCalendarEvent x toUserId groupId wk s1 = (Inl e, s2) \<longrightarrow>
          postSwap x groupId wk fromUserId toUserId s = (Inl e, s2)
        \<and> rotations (data s2) = rotations (data s))
   \<and> (deleteRotation x rotationId s = (Inl e, s') \<longrightarrow>
       ((find (\<lambda>r. r_id r = rotationId) (rotations (data s)) = None
            \<and> e = RotationNotFound \<and> s' = s)
        \<or> (\<exists>rot. find (\<lambda>r. r_id r = rotationId) (rotations (data s)) = Some rot
            \<and> deleteIfEvent x (assignedUserId rot) rot s = (Inl e, s')
            \<and> rotations (data s') = rotations (data s))
        \<or> (\<exists>rot s1.
              find (\<lambda>r. r_id r = rotationId) (rotations (data s)) = Some rot
            \<and> deleteIfEvent x (assignedUserId rot) rot s = (Inr (), s1)
            \<and> e = SaveFailure
            \<and> \<not> writeFile x (calls s1) (data s')
            \<and> calls s' = calls s1 @ [Save (data s')]
            \<and> rotations (data s') = filter (\<lambda>r. r_id r \<noteq> rotationId) (rotations (data s))))
       \<and> disk s' = disk s)"
proof (intro conjI impI)
  assume a: "postSwap x groupId wk fromUserId toUserId s = (Inl e, s')"
  let ?P = "isSwapTarget groupId wk fromUserId"
  from postSwap_error_cases[OF a]
  consider
      (nf) "find ?P (rotations (data s)) = None \<and> e = RotationNotFound \<and> s' = s"
    | (del) rot where "find ?P (rotations (data s)) = Some rot" "deleteIfEvent x fromUserId rot s = (Inl e, s')"
    | (cre) rot s1 where "find ?P (rotations (data s)) = Some rot" "deleteIfEvent x fromUserId rot s = (Inr (), s1)"
        "createCalendarEvent x toUserId groupId wk s1 = (Inl e, s')"
    | (sav) rot s1 newEventId s2 where "find ?P (rotations (data s)) = Some rot"
        "deleteIfEvent x fromUserId rot s = (Inr (), s1)"
        "createCalendarEvent x toUserId groupId wk s1 = (Inr newEventId, s2)"
        "e = SaveFailure" "\<not> writeFile x (calls s2) (data s')" "calls s' = calls s2 @ [Save (data s')]"
        "disk s' = disk s2"
        "data s' = (data s2)\<lparr>rotations :=
                  updateFirst ?P
                    (\<lambda>r. r\<lparr>assignedUserId := toUserId, calendarEventId := newEventId,
                           swappedAt := Some (isoNow x (calls s2))\<rparr>)
                    (rotations (data s2))\<rparr>"
    by blast
  then show "(find ?P (rotations (data s)) = None \<and> e = RotationNotFound \<and> s' = s)
        \<or> (\<exists>rot. find ?P (rotations (data s)) = Some rot
            \<and> deleteIfEvent x fromUserId rot s = (Inl e, s')
            \<and> rotations (data s') = rotations (data s))
        \<or> (\<exists>rot s1. find ?P (rotations (data s)) = Some rot
            \<and> deleteIfEvent x fromUserId rot s = (Inr (), s1)
            \<and> createCalendarEvent x toUserId groupId wk s1 = (Inl e, s')
            \<and> rotations (data s') = rotations (data s))
        \<or> (\<exists>rot s1 newEventId s2.
              find ?P (rotations (data s)) = Some rot
            \<and> deleteIfEvent x fromUserId rot s = (Inr (), s1)
            \<and> createCalendarEvent x toUserId groupId wk s1 = (Inr newEventId, s2)
            \<and> e = SaveFailure
            \<and> \<not> writeFile x (calls s2) (data s')
            \<and> calls s' = calls s2 @ [Save (data s')]
            \<and> disk s' = disk s2
            \<and> rotations (data s')
                = updateFirst ?P
                    (\<lambda>r. r\<lparr>assignedUserId := toUserId, calendarEventId := newEventId,
                           swappedAt := Some (isoNow x (calls s2))\<rparr>)
                    (rotations (data s)))"
  proof cases
    case nf
    then show ?thesis by blast
  next
    case del
    from deleteIfEvent_frame[OF del(2)] have "rotations (data s') = rotations (data s)" by simp
    with del show ?thesis by blast
  next
    case cre
    from deleteIfEvent_frame[OF cre(2)] create_keeps_ledger[OF cre(3)]
    have "rotations (data s') = rotations (data s)" by simp
    with cre show ?thesis by blast
  next
    case sav
    from deleteIfEvent_frame[OF sav(2)] create_keeps_ledger[OF sav(3)]
    have "rotations (data s2) = rotations (data s)" by simp
    with sav(8) have "rotations (data s')
                = updateFirst ?P
                    (\<lambda>r. r\<lparr>assignedUserId := toUserId, calendarEventId := newEventId,
                           swappedAt := Some (isoNow x (calls s2))\<rparr>)
                    (rotations (data s))" by simp
    with sav(1-7) show ?thesis by blast
  qed
  assume "rotations (disk s) = rotations (data s)"
  then show "rotations (disk s') = rotations (disk s)"
    by (rule postSwap_error_disk[OF a])
next
  assume a: "find (isSwapTarget groupId wk fromUserId) (rotations (data s)) = Some rot
        \<and> deleteIfEvent x fromUserId rot s = (Inr (), s1)
        \<and> createCalendarEvent x toUserId groupId wk s1 = (Inl e, s2)"
  then show "postSwap x groupId wk fromUserId toUserId s = (Inl e, s2)"
    by (simp add: postSwap_def)
  from a have d: "deleteIfEvent x fromUserId rot s = (Inr (), s1)"
    and c: "createCalendarEvent x toUserId groupId wk s1 = (Inl e, s2)" by simp_all
  from deleteIfEvent_frame[OF d] create_keeps_ledger[OF c]
  show "rotations (data s2) = rotations (data s)" by simp
next
  assume a: "deleteRotation x rotationId s = (Inl e, s')"
  let ?Q = "\<lambda>r. r_id r = rotationId"
  from deleteRotation_error_cases[OF a]
  consider
      (nf) "find ?Q (rotations (data s)) = None \<and> e = RotationNotFound \<and> s' = s"
    | (del) rot where "find ?Q (rotations (data s)) = Some rot"
        "deleteIfEvent x (assignedUserId rot) rot s = (Inl e, s')"
    | (sav) rot s1 where "find ?Q (rotations (data s)) = Some rot"
        "deleteIfEvent x (assignedUserId rot) rot s = (Inr (), s1)"
        "e = SaveFailure" "\<not> writeFile x (calls s1) (data s')" "calls s' = calls s1 @ [Save (data s')]"
        "disk s' = disk s1"
        "data s' = (data s1)\<lparr>rotations := filter (\<lambda>r. r_id r \<noteq> rotationId) (rotations (data s1))\<rparr>"
    by blast
  then show "(find ?Q (rotations (data s)) = None \<and> e = RotationNotFound \<and> s' = s)
        \<or> (\<exists>rot. find ?Q (rotations (data s)) = Some rot
            \<and> deleteIfEvent x (assignedUserId rot) rot s = (Inl e, s')
            \<and> rotations (data s') = rotations (data s))
        \<or> (\<exists>rot s1.
              find ?Q (rotations (data s)) = Some rot
            \<and> deleteIfEvent x (assignedUserId rot) rot s = (Inr (), s1)
            \<and> e = SaveFailure
            \<and> \<not> writeFile x (calls s1) (data s')
            \<and> calls s' = calls s1 @ [Save (data s')]
            \<and> rotations (data s') = filter (\<lambda>r. r_id r \<noteq> rotationId) (rotations (data s)))"
  proof cases
    case nf
    then show ?thesis by blast
  next
    case del
    from deleteIfEvent_frame[OF del(2)] have "rotations (data s') = rotations (data s)" by simp
    with del show ?thesis by blast
  next
    case sav
    from deleteIfEvent_frame[OF sav(2)] sav(7)
    have "rotations (data s') = filter (\<lambda>r. r_id r \<noteq> rotationId) (rotations (data s))" by simp
    with sav(1-5) show ?thesis by blast
  qed
  show "disk s' = disk s"
    by (rule deleteRotation_error_disk[OF a])
qed

lemma extNoSave_simps:
  "refreshAccessToken (extNoSave now) cs tk = Some freshTokens"
  "eventsInsert (extNoSave now) cs tk ev = Some (''evt-'' @ natToString (length cs))"
  "eventsDelete (extNoSave now) cs tk eventId = True"
  "writeFile (extNoSave now) cs d = False"
  "dateNow (extNoSave now) cs = now"
  "isoNow (extNoSave now) cs = ''now''"
  by (simp_all add: extNoSave_def extAt_def)

lemma extNoInsert_simps:
  "refreshAccessToken (extNoInsert now) cs tk = Some freshTokens"
  "eventsInsert (extNoInsert now) cs tk ev = None"
  "eventsDelete (extNoInsert now) cs tk eventId = True"
  "writeFile (extNoInsert now) cs d = True"
  "dateNow (extNoInsert now) cs = now"
  "isoNow (extNoInsert now) cs = ''now''"
  by (simp_all add: extNoInsert_def extAt_def)

lemma eval_swap_unauthenticated:
  "postSwap (extAt 2000) ''g1'' ''2026-02-16'' ''A'' ''D''
     (stateOf (demoStore [userOf ''A'' None, userOf ''D'' (Some freshTokens)]
        [rotOf ''rot-1'' ''A'' ''2026-02-16'' ''evt-0'']))
   = (Inl Unauthenticated,
      stateOf (demoStore [userOf ''A'' None, userOf ''D'' (Some freshTokens)]
        [rotOf ''rot-1'' ''A'' ''2026-02-16'' ''evt-0'']))"
  by (simp add: postSwap_def deleteIfEvent_def deleteCalendarEvent_def
      stateOf_sel demoStore_sel userOf_def rotOf_def isUser_def isSwapTarget_def)

lemma eval_cancel_missing:
  "deleteRotation (extAt 2000) ''rot-9''
     (stateOf (demoStore [userOf ''A'' None, userOf ''D'' (Some freshTokens)]
        [rotOf ''rot-1'' ''A'' ''2026-02-16'' ''evt-0'']))
   = (Inl RotationNotFound,
      stateOf (demoStore [userOf ''A'' None, userOf ''D'' (Some freshTokens)]
        [rotOf ''rot-1'' ''A'' ''2026-02-16'' ''evt-0'']))"
  by (simp add: deleteRotation_def stateOf_sel demoStore_sel rotOf_def)

lemma eval_deleteIfEvent_nosave:
  "deleteIfEvent (extNoSave 2000) ''A'' (rotOf ''rot-1'' ''A'' ''2026-02-16'' ''evt-0'')
     (stateOf (demoStore [userOf ''A'' (Some freshTokens), userOf ''D'' (Some oldTokens)]
        [rotOf ''rot-1'' ''A'' ''2026-02-16'' ''evt-0'']))
   = (Inr (),
      \<lparr>data = demoStore [userOf ''A'' (Some freshTokens), userOf ''D'' (Some oldTokens)]
                [rotOf ''rot-1'' ''A'' ''2026-02-16'' ''evt-0''],
        disk = demoStore [userOf ''A'' (Some freshTokens), userOf ''D'' (Some oldTokens)]
                [rotOf ''rot-1'' ''A'' ''2026-02-16'' ''evt-0''],
        calls = [Delete freshTokens ''evt-0'']\<rparr>)"
  by (simp add: deleteIfEvent_def deleteCalendarEvent_def extNoSave_simps stateOf_def demoStore_sel
      userOf_def rotOf_def isUser_def Let_def)

lemma eval_create_refresh_nosave:
  "createCalendarEvent (extNoSave 2000) ''D'' ''g1'' ''2026-02-16''
      \<lparr>data = demoStore [userOf ''A'' (Some freshTokens), userOf ''D'' (Some oldTokens)]
                [rotOf ''rot-1'' ''A'' ''2026-02-16'' ''evt-0''],
        disk = demoStore [userOf ''A'' (Some freshTokens), userOf ''D'' (Some oldTokens)]
                [rotOf ''rot-1'' ''A'' ''2026-02-16'' ''evt-0''],
        calls = [Delete freshTokens ''evt-0'']\<rparr>
   = (Inl SaveFailure,
      \<lparr>data = demoStore [userOf ''A'' (Some freshTokens), userOf ''D'' (Some freshTokens)]
                [rotOf ''rot-1'' ''A'' ''2026-02-16'' ''evt-0''],
        disk = demoStore [userOf ''A'' (Some freshTokens), userOf ''D'' (Some oldTokens)]
                [rotOf ''rot-1'' ''A'' ''2026-02-16'' ''evt-0''],
        calls = [Delete freshTokens ''evt-0'', Refresh oldTokens,
                 Save (demoStore [userOf ''A'' (Some freshTokens), userOf ''D'' (Some freshTokens)]
                        [rotOf ''rot-1'' ''A'' ''2026-02-16'' ''evt-0''])]\<rparr>)"
  by (simp add: createCalendarEvent_def saveData_def extNoSave_simps demoStore_def userOf_def
      isUser_def isGroup_def groupABC_def oldTokens_def Let_def)

theorem swap_cancel_error_frame_witness:
  "postSwap (extNoSave 2000) ''g1'' ''2026-02-16'' ''A'' ''D''
     (stateOf (demoStore [userOf ''A'' (Some freshTokens), userOf ''D'' (Some oldTokens)]
        [rotOf ''rot-1'' ''A'' ''2026-02-16'' ''evt-0'']))
     = (Inl SaveFailure,
        \<lparr>data = demoStore [userOf ''A'' (Some freshTokens), userOf ''D'' (Some freshTokens)]
                [rotOf ''rot-1'' ''A'' ''2026-02-16'' ''evt-0''],
          disk = demoStore [userOf ''A'' (Some freshTokens), userOf ''D'' (Some oldTokens)]
                [rotOf ''rot-1'' ''A'' ''2026-02-16'' ''evt-0''],
          calls = [Delete freshTokens ''evt-0'', Refresh oldTokens,
                 Save (demoStore [userOf ''A'' (Some freshTokens), userOf ''D'' (Some freshTokens)]
                        [rotOf ''rot-1'' ''A'' ''2026-02-16'' ''evt-0''])]\<rparr>)
   \<and> fst (postSwap (extAt 2000) ''g1'' ''2026-02-16'' ''A'' ''D''
     (stateOf (demoStore [userOf ''A'' None, userOf ''D'' (Some freshTokens)]
        [rotOf ''rot-1'' ''A'' ''2026-02-16'' ''evt-0'']))) = Inl Unauthenticated
   \<and> rotations (data (snd (postSwap (extAt 2000) ''g1'' ''2026-02-16'' ''A'' ''D''
     (stateOf (demoStore [userOf ''A'' None, userOf ''D'' (Some freshTokens)]
        [rotOf ''rot-1'' ''A'' ''2026-02-16'' ''evt-0''])))))
      = [rotOf ''rot-1'' ''A'' ''2026-02-16'' ''evt-0'']
   \<and> fst (deleteRotation (extAt 2000) ''rot-9''
     (stateOf (demoStore [userOf ''A'' None, userOf ''D'' (Some freshTokens)]
        [rotOf ''rot-1'' ''A'' ''2026-02-16'' ''evt-0'']))) = Inl RotationNotFound
   \<and> rotations (data (snd (deleteRotation (extAt 2000) ''rot-9''
     (stateOf (demoStore [userOf ''A'' None, userOf ''D'' (Some freshTokens)]
        [rotOf ''rot-1'' ''A'' ''2026-02-16'' ''evt-0''])))))
      = [rotOf ''rot-1'' ''A'' ''2026-02-16'' ''evt-0'']"
proof -
  let ?s = "stateOf (demoStore [userOf ''A'' None, userOf ''D'' (Some freshTokens)]
        [rotOf ''rot-1'' ''A'' ''2026-02-16'' ''evt-0''])"
  let ?t = "stateOf (demoStore [userOf ''A'' (Some freshTokens), userOf ''D'' (Some oldTokens)]
        [rotOf ''rot-1'' ''A'' ''2026-02-16'' ''evt-0''])"
  have f: "find (isSwapTarget ''g1'' ''2026-02-16'' ''A'') (rotations (data ?t))
      = Some (rotOf ''rot-1'' ''A'' ''2026-02-16'' ''evt-0'')"
    by (simp add: stateOf_sel demoStore_sel rotOf_def isSwapTarget_def)
  have first: "postSwap (extNoSave 2000) ''g1'' ''2026-02-16'' ''A'' ''D'' ?t
     = (Inl SaveFailure,
        \<lparr>data = demoStore [userOf ''A'' (Some freshTokens), userOf ''D'' (Some freshTokens)]
                [rotOf ''rot-1'' ''A'' ''2026-02-16'' ''evt-0''],
          disk = demoStore [userOf ''A'' (Some freshTokens), userOf ''D'' (Some oldTokens)]
                [rotOf ''rot-1'' ''A'' ''2026-02-16'' ''evt-0''],
          calls = [Delete freshTokens ''evt-0'', Refresh oldTokens,
                 Save (demoStore [userOf ''A'' (Some freshTokens), userOf ''D'' (Some freshTokens)]
                        [rotOf ''rot-1'' ''A'' ''2026-02-16'' ''evt-0''])]\<rparr>)"
    using swap_cancel_error_frame[where x = "extNoSave 2000" and groupId = "''g1''" and wk = "''2026-02-16''"
        and fromUserId = "''A''" and toUserId = "''D''" and s = ?t
        and rot = "rotOf ''rot-1'' ''A'' ''2026-02-16'' ''evt-0''"] f
      eval_deleteIfEvent_nosave eval_create_refresh_nosave
    by blast
  have r0: "rotations (data ?s) = [rotOf ''rot-1'' ''A'' ''2026-02-16'' ''evt-0'']"
    by (simp add: stateOf_sel demoStore_sel)
  note fr = swap_cancel_error_frame[where x = "extAt 2000" and groupId = "''g1''" and wk = "''2026-02-16''"
      and fromUserId = "''A''" and toUserId = "''D''" and s = ?s and rotationId = "''rot-9''"]
  have "rotations (data (snd (postSwap (extAt 2000) ''g1'' ''2026-02-16'' ''A'' ''D'' ?s))) = rotations (data ?s)"
    using fr[where e = Unauthenticated and s' = ?s] eval_swap_unauthenticated by auto
  moreover have "rotations (data (snd (deleteRotation (extAt 2000) ''rot-9'' ?s))) = rotations (data ?s)"
    using fr[where e = RotationNotFound and s' = ?s] eval_cancel_missing by auto
  ultimately show ?thesis
    using first by (simp add: eval_swap_unauthenticated eval_cancel_missing r0)
qed

text \<open>
  C5 as stated fails: when the write of the file is rejected, the cancel handler
  answers with an error although it has removed the rotation from the list in memory.
\<close>

theorem cancel_save_failure_counterexample:
  "fst (deleteRotation (extNoSave 2000) ''rot-1''
     (stateOf (demoStore [userOf ''A'' (Some freshTokens)]
        [rotOf ''rot-1'' ''A'' ''2026-02-16'' ''evt-0'', rotOf ''rot-2'' ''B'' ''2026-02-23'' ''evt-1''])))
     = Inl SaveFailure
   \<and> rotations (data (stateOf (demoStore [userOf ''A'' (Some freshTokens)]
        [rotOf ''rot-1'' ''A'' ''2026-02-16'' ''evt-0'', rotOf ''rot-2'' ''B'' ''2026-02-23'' ''evt-1''])))
     = [rotOf ''rot-1'' ''A'' ''2026-02-16'' ''evt-0'', rotOf ''rot-2'' ''B'' ''2026-02-23'' ''evt-1'']
   \<and> rotations (data (snd (deleteRotation (extNoSave 2000) ''rot-1''
     (stateOf (demoStore [userOf ''A'' (Some freshTokens)]
        [rotOf ''rot-1'' ''A'' ''2026-02-16'' ''evt-0'', rotOf ''rot-2'' ''B'' ''2026-02-23'' ''evt-1''])))))
     = [rotOf ''rot-2'' ''B'' ''2026-02-23'' ''evt-1'']"
  by (simp add: deleteRotation_def deleteIfEvent_def deleteCalendarEvent_def saveData_def
      extNoSave_simps stateOf_sel demoStore_sel userOf_def rotOf_def isUser_def Let_def)

lemma refreshedData_cong: "data s1 = data s \<Longrightarrow> refreshedData s1 uid a = refreshedData s uid a"
  by (simp add: refreshedData_def)

text \<open>
  C10, as amended. When the old event of the rotation was deleted and the creation of
  the new event then fails, the swap returns that error, and rotations, groups (members
  and cursors) and skip weeks are as before; the store is either untouched or differs
  only in the new assignee's credentials, replaced by refreshed ones, and the file is
  either as before or holds exactly that store.
\<close>

theorem swap_create_failure_frame:
  assumes f: "find (isSwapTarget groupId wk fromUserId) (rotations (data s)) = Some rot"
    and ev: "calendarEventId rot \<noteq> []"
    and del: "deleteCalendarEvent x fromUserId (calendarEventId rot) s = (Inr (), s1)"
    and cre: "createCalendarEvent x toUserId groupId wk s1 = (Inl e, s2)"
  shows "postSwap x groupId wk fromUserId toUserId s = (Inl e, s2)
    \<and> rotations (data s2) = rotations (data s)
    \<and> groups (data s2) = groups (data s)
    \<and> skipWeeks (data s2) = skipWeeks (data s)
    \<and> ((data s2 = data s \<and> disk s2 = disk s)
       \<or> (\<exists>a. data s2 = refreshedData s toUserId a \<and> (disk s2 = disk s \<or> disk s2 = data s2)))"
proof -
  have d1: "data s1 = data s \<and> disk s1 = disk s" using delete_frame[OF del] .
  have res: "postSwap x groupId wk fromUserId toUserId s = (Inl e, s2)"
    using f ev del cre by (simp add: postSwap_def deleteIfEvent_def)
  have led: "rotations (data s2) = rotations (data s) \<and> groups (data s2) = groups (data s)
     \<and> skipWeeks (data s2) = skipWeeks (data s)"
    using create_keeps_ledger[OF cre] d1 by simp
  have "(data s2 = data s1 \<and> disk s2 = disk s1)
     \<or> (\<exists>a. data s2 = refreshedData s1 toUserId a \<and> (disk s2 = disk s1 \<or> disk s2 = data s2))"
    by (rule create_frame[OF cre])
  then have "(data s2 = data s \<and> disk s2 = disk s)
       \<or> (\<exists>a. data s2 = refreshedData s toUserId a \<and> (disk s2 = disk s \<or> disk s2 = data s2))"
    using d1 refreshedData_cong[of s1 s toUserId] by auto
  with res led show ?thesis by blast
qed

lemma eval_delete_A:
  "deleteCalendarEvent (extNoInsert 2000) ''A'' ''evt-0''
     (stateOf (demoStore [userOf ''A'' (Some freshTokens), userOf ''D'' (Some oldTokens)]
        [rotOf ''rot-1'' ''A'' ''2026-02-16'' ''evt-0'']))
   = (Inr (),
      \<lparr>data = demoStore [userOf ''A'' (Some freshTokens), userOf ''D'' (Some oldTokens)]
                [rotOf ''rot-1'' ''A'' ''2026-02-16'' ''evt-0''],
        disk = demoStore [userOf ''A'' (Some freshTokens), userOf ''D'' (Some oldTokens)]
                [rotOf ''rot-1'' ''A'' ''2026-02-16'' ''evt-0''],
        calls = [Delete freshTokens ''evt-0'']\<rparr>)"
  by (simp add: deleteCalendarEvent_def extNoInsert_simps stateOf_def demoStore_sel userOf_def isUser_def Let_def)

lemma eval_create_D_fails:
  "createCalendarEvent (extNoInsert 2000) ''D'' ''g1'' ''2026-02-16''
      \<lparr>data = demoStore [userOf ''A'' (Some freshTokens), userOf ''D'' (Some oldTokens)]
                [rotOf ''rot-1'' ''A'' ''2026-02-16'' ''evt-0''],
        disk = demoStore [userOf ''A'' (Some freshTokens), userOf ''D'' (Some oldTokens)]
                [rotOf ''rot-1'' ''A'' ''2026-02-16'' ''evt-0''],
        calls = [Delete freshTokens ''evt-0'']\<rparr>
   = (Inl ExternalSyncFailure,
      \<lparr>data = demoStore [userOf ''A'' (Some freshTokens), userOf ''D'' (Some freshTokens)]
                [rotOf ''rot-1'' ''A'' ''2026-02-16'' ''evt-0''],
        disk = demoStore [userOf ''A'' (Some freshTokens), userOf ''D'' (Some freshTokens)]
                [rotOf ''rot-1'' ''A'' ''2026-02-16'' ''evt-0''],
        calls = [Delete freshTokens ''evt-0'', Refresh oldTokens,
                 Save (demoStore [userOf ''A'' (Some freshTokens), userOf ''D'' (Some freshTokens)]
                        [rotOf ''rot-1'' ''A'' ''2026-02-16'' ''evt-0'']),
                 Insert freshTokens (buildEvent (groupABC 0) ''2026-02-16'')]\<rparr>)"
  by (simp add: createCalendarEvent_def saveData_def extNoInsert_simps demoStore_def userOf_def
      isUser_def isGroup_def groupABC_def oldTokens_def Let_def)

theorem swap_create_failure_frame_witness:
  "postSwap (extNoInsert 2000) ''g1'' ''2026-02-16'' ''A'' ''D''
     (stateOf (demoStore [userOf ''A'' (Some freshTokens), userOf ''D'' (Some oldTokens)]
        [rotOf ''rot-1'' ''A'' ''2026-02-16'' ''evt-0'']))
   = (Inl ExternalSyncFailure,
      \<lparr>data = demoStore [userOf ''A'' (Some freshTokens), userOf ''D'' (Some freshTokens)]
                [rotOf ''rot-1'' ''A'' ''2026-02-16'' ''evt-0''],
        disk = demoStore [userOf ''A'' (Some freshTokens), userOf ''D'' (Some freshTokens)]
                [rotOf ''rot-1'' ''A'' ''2026-02-16'' ''evt-0''],
        calls = [Delete freshTokens ''evt-0'', Refresh oldTokens,
                 Save (demoStore [userOf ''A'' (Some freshTokens), userOf ''D'' (Some freshTokens)]
                        [rotOf ''rot-1'' ''A'' ''2026-02-16'' ''evt-0'']),
                 Insert freshTokens (buildEvent (groupABC 0) ''2026-02-16'')]\<rparr>)"
proof -
  let ?s = "stateOf (demoStore [userOf ''A'' (Some freshTokens), userOf ''D'' (Some oldTokens)]
        [rotOf ''rot-1'' ''A'' ''2026-02-16'' ''evt-0''])"
  have f: "find (isSwapTarget ''g1'' ''2026-02-16'' ''A'') (rotations (data ?s))
      = Some (rotOf ''rot-1'' ''A'' ''2026-02-16'' ''evt-0'')"
    by (simp add: stateOf_sel demoStore_sel rotOf_def isSwapTarget_def)
  have ev: "calendarEventId (rotOf ''rot-1'' ''A'' ''2026-02-16'' ''evt-0'') \<noteq> []"
    by (simp add: rotOf_def)
  have del: "deleteCalendarEvent (extNoInsert 2000) ''A''
      (calendarEventId (rotOf ''rot-1'' ''A'' ''2026-02-16'' ''evt-0'')) ?s
    = (Inr (),
      \<lparr>data = demoStore [userOf ''A'' (Some freshTokens), userOf ''D'' (Some oldTokens)]
                [rotOf ''rot-1'' ''A'' ''2026-02-16'' ''evt-0''],
        disk = demoStore [userOf ''A'' (Some freshTokens), userOf ''D'' (Some oldTokens)]
                [rotOf ''rot-1'' ''A'' ''2026-02-16'' ''evt-0''],
        calls = [Delete freshTokens ''evt-0'']\<rparr>)"
    using eval_delete_A by (simp add: rotOf_def)
  from swap_create_failure_frame[OF f ev del eval_create_D_fails] show ?thesis by blast
qed

text \<open>
  C10 as stated fails: a swap whose last step, the write of the file, is rejected has
  failed after the old event was deleted, and the rotation is reassigned in memory.
\<close>

theorem swap_save_failure_counterexample:
  "fst (postSwap (extNoSave 2000) ''g1'' ''2026-02-16'' ''A'' ''D''
     (stateOf (demoStore [userOf ''A'' (Some freshTokens), userOf ''D'' (Some freshTokens)]
        [rotOf ''rot-1'' ''A'' ''2026-02-16'' ''evt-0''])))
     = Inl SaveFailure
   \<and> Delete freshTokens ''evt-0'' \<in> set (calls (snd (postSwap (extNoSave 2000) ''g1'' ''2026-02-16'' ''A'' ''D''
     (stateOf (demoStore [userOf ''A'' (Some freshTokens), userOf ''D'' (Some freshTokens)]
        [rotOf ''rot-1'' ''A'' ''2026-02-16'' ''evt-0''])))))
   \<and> rotations (data (stateOf (demoStore [userOf ''A'' (Some freshTokens), userOf ''D'' (Some freshTokens)]
        [rotOf ''rot-1'' ''A'' ''2026-02-16'' ''evt-0''])))
     = [rotOf ''rot-1'' ''A'' ''2026-02-16'' ''evt-0'']
   \<and> rotations (data (snd (postSwap (extNoSave 2000) ''g1'' ''2026-02-16'' ''A'' ''D''
     (stateOf (demoStore [userOf ''A'' (Some freshTokens), userOf ''D'' (Some freshTokens)]
        [rotOf ''rot-1'' ''A'' ''2026-02-16'' ''evt-0''])))))
     = [(rotOf ''rot-1'' ''D'' ''2026-02-16'' ''evt-1'')\<lparr>swappedAt := Some ''now''\<rparr>]"
  by (simp add: postSwap_def deleteIfEvent_def deleteCalendarEvent_def createCalendarEvent_def
      saveData_def extNoSave_simps stateOf_def demoStore_def userOf_def rotOf_def isUser_def isGroup_def
      isSwapTarget_def freshTokens_def natToString_small Let_def groupABC_def)

section \<open>Properties of the scheduling workflow\<close>




lemma getNext_week:
  "getNextRotationAssignment d groupId wk = (Inr (uid, w), d') \<Longrightarrow> w = wk"
  by (auto simp: getNextRotationAssignment_def split: option.splits if_splits sum.splits prod.splits)









lemma sortedMembers_groupABC: "sortedMembers (groupABC c) = [memberA, memberB, memberC]"
  by (simp add: sortedMembers_def groupABC_def memberA_def memberB_def memberC_def)

lemma storeAt_sel:
  "users (storeAt c sk us rs) = us" "groups (storeAt c sk us rs) = [groupABC c]"
  "skipWeeks (storeAt c sk us rs) = sk" "rotations (storeAt c sk us rs) = rs"
  by (simp_all add: storeAt_def)

lemma groupABC_sel:
  "currentIndex (groupABC c) = c" "members (groupABC c) = [memberC, memberA, memberB]"
  "g_id (groupABC c) = ''g1''" "(groupABC c)\<lparr>currentIndex := v\<rparr> = groupABC v"
  by (simp_all add: groupABC_def)

lemma isGroup_groupABC: "isGroup ''g1'' (groupABC c)"
  by (simp add: groupABC_def isGroup_def)



lemma addDays_numeral: "addDays (numeral k) ymd = addDays (pred_numeral k) (nextDay ymd)"
  by (simp add: numeral_eq_Suc)

lemma parse_20260216: "parseIsoDate ''2026-02-16'' = Some (2026, 2, 16)"
  by (simp add: parseIsoDate_def allDigits_def digitIn_def hexDigits_def digitsValue_def)

lemma addDays_20260216:
  "addDays 2 (2026, 2, 16) = (2026, 2, 18)"
  "addDays 7 (2026, 2, 16) = (2026, 2, 23)"
  "addDays 14 (2026, 2, 16) = (2026, 3, 2)"
  by (simp_all add: addDays_numeral nextDay_def daysInMonth_def isLeap_def)

lemma format_examples:
  "formatIsoDate (2026, 2, 16) = ''2026-02-16''"
  "formatIsoDate (2026, 2, 18) = ''2026-02-18''"
  "formatIsoDate (2026, 2, 23) = ''2026-02-23''"
  "formatIsoDate (2026, 3, 2) = ''2026-03-02''"
  by (simp_all add: formatIsoDate_def padStart_def natToString.simps)

lemma addDaysIso_examples:
  "addDaysIso ''2026-02-16'' 0 = Some ''2026-02-16''"
  "addDaysIso ''2026-02-16'' 2 = Some ''2026-02-18''"
  "addDaysIso ''2026-02-16'' 7 = Some ''2026-02-23''"
  "addDaysIso ''2026-02-16'' 14 = Some ''2026-03-02''"
  by (simp_all only: addDaysIso_def parse_20260216 option.map addDays.simps addDays_20260216 format_examples)





lemma find_usersABC:
  "find (isUser ''A'') usersABC = Some (userOf ''A'' (Some freshTokens))"
  "find (isUser ''B'') usersABC = Some (userOf ''B'' (Some freshTokens))"
  "find (isUser ''C'') usersABC = Some (userOf ''C'' (Some freshTokens))"
  by (simp_all add: usersABC_def userOf_def isUser_def)







section \<open>Properties of member removal\<close>

lemma deleteLoop_frame: "data (deleteLoop x uid rs s) = data s \<and> disk (deleteLoop x uid rs s) = disk s"
proof (induction rs arbitrary: s)
  case Nil
  then show ?case by simp
next
  case (Cons r rs)
  obtain res s1 where d: "deleteIfEvent x uid r s = (res, s1)" by (cases "deleteIfEvent x uid r s")
  from deleteIfEvent_frame[OF d] Cons.IH[of s1] d show ?case by simp
qed

lemma isFutureOf_clock:
  "dateNow x cs = dateNow x cs' \<Longrightarrow> isFutureOf x cs groupId uid r = isFutureOf x cs' groupId uid r"
  by (simp add: isFutureOf_def notBefore_def split: option.splits)

lemma deleteMember_unfold:
  assumes "find (isGroup groupId) (groups (data s)) = Some g"
  shows "deleteMember x groupId uid s =
     (case saveData x ((afterDeletes x groupId uid s)\<lparr>data :=
              (data s)\<lparr>groups := withoutMember groupId uid (groups (data s)),
                        rotations := filter (\<lambda>r. \<not> isFutureOf x (calls (afterDeletes x groupId uid s)) groupId uid r)
                                       (rotations (data s))\<rparr>\<rparr>) of
        (Inl e, s4) \<Rightarrow> (Inl e, s4)
      | (Inr u, s4) \<Rightarrow>
         (case find (isUser uid) (users (data s)) of
            None \<Rightarrow> (Inl TypeError, s4)
          | Some u \<Rightarrow> (Inr (name u, length (filter (isFutureOf x (calls s) groupId uid) (rotations (data s)))), s4)))"
  using assms
  by (simp add: deleteMember_def Let_def withoutMember_def afterDeletes_def saveData_def deleteLoop_frame
        split: option.splits)

lemma filter_count_compl: "length (filter P xs) + length (filter (\<lambda>r. \<not> P r) xs) = length xs"
  by (induction xs) simp_all

text \<open>
  For an existing group, removing a member takes the user out of the member list and
  removes from the rotation list exactly the rotations of that group and user whose week
  start, as an instant, is not before the clock reading the handler takes after its
  deletion loop; users and skip weeks stay, and no outcome of a deletion enters the
  result. If that reading equals the one the handler took before the loop, the rotations
  removed are those it counted. When the write of the file is accepted, the handler
  reports the user's name and that count if the user record exists, and fails with a
  \<open>TypeError\<close> after the saved removal if it does not; when the write is rejected, the
  removal stays in memory only.
\<close>

lemma deleteMember_effect:
  assumes g: "find (isGroup groupId) (groups (data s)) = Some g"
  shows "groups (data (snd (deleteMember x groupId uid s))) = withoutMember groupId uid (groups (data s))
    \<and> users (data (snd (deleteMember x groupId uid s))) = users (data s)
    \<and> skipWeeks (data (snd (deleteMember x groupId uid s))) = skipWeeks (data s)
    \<and> rotations (data (snd (deleteMember x groupId uid s)))
        = filter (\<lambda>r. \<not> isFutureOf x (calls (afterDeletes x groupId uid s)) groupId uid r) (rotations (data s))
    \<and> (dateNow x (calls (afterDeletes x groupId uid s)) = dateNow x (calls s) \<longrightarrow>
          rotations (data (snd (deleteMember x groupId uid s)))
            = filter (\<lambda>r. \<not> isFutureOf x (calls s) groupId uid r) (rotations (data s))
        \<and> length (filter (isFutureOf x (calls s) groupId uid) (rotations (data s)))
            + length (rotations (data (snd (deleteMember x groupId uid s)))) = length (rotations (data s)))
    \<and> (writeFile x (calls (afterDeletes x groupId uid s)) (data (snd (deleteMember x groupId uid s)))
         \<and> find (isUser uid) (users (data s)) = Some u \<longrightarrow>
          fst (deleteMember x groupId uid s)
            = Inr (name u, length (filter (isFutureOf x (calls s) groupId uid) (rotations (data s))))
        \<and> disk (snd (deleteMember x groupId uid s)) = data (snd (deleteMember x groupId uid s)))
    \<and> (writeFile x (calls (afterDeletes x groupId uid s)) (data (snd (deleteMember x groupId uid s)))
         \<and> find (isUser uid) (users (data s)) = None \<longrightarrow>
          fst (deleteMember x groupId uid s) = Inl TypeError
        \<and> disk (snd (deleteMember x groupId uid s)) = data (snd (deleteMember x groupId uid s)))
    \<and> (\<not> writeFile x (calls (afterDeletes x groupId uid s)) (data (snd (deleteMember x groupId uid s))) \<longrightarrow>
          fst (deleteMember x groupId uid s) = Inl SaveFailure
        \<and> disk (snd (deleteMember x groupId uid s)) = disk s)
    \<and> calls (snd (deleteMember x groupId uid s))
        = calls (afterDeletes x groupId uid s) @ [Save (data (snd (deleteMember x groupId uid s)))]"
proof -
  let ?s2 = "afterDeletes x groupId uid s"
  let ?d3 = "(data s)\<lparr>groups := withoutMember groupId uid (groups (data s)),
                        rotations := filter (\<lambda>r. \<not> isFutureOf x (calls ?s2) groupId uid r) (rotations (data s))\<rparr>"
  let ?s3 = "?s2\<lparr>data := ?d3\<rparr>"
  let ?count = "length (filter (isFutureOf x (calls s) groupId uid) (rotations (data s)))"
  let ?res = "deleteMember x groupId uid s"
  obtain r4 s4 where sv: "saveData x ?s3 = (r4, s4)" by (cases "saveData x ?s3")
  have d4: "data s4 = ?d3" using saveData_cases[OF sv] by simp
  have c4: "calls s4 = calls ?s2 @ [Save ?d3]" using saveData_cases[OF sv] by simp
  have k2: "disk ?s2 = disk s" by (simp add: afterDeletes_def deleteLoop_frame)
  have sv_ok: "writeFile x (calls ?s2) ?d3 \<Longrightarrow> r4 = Inr () \<and> disk s4 = ?d3"
    using saveData_cases[OF sv] by auto
  have sv_no: "\<not> writeFile x (calls ?s2) ?d3 \<Longrightarrow> r4 = Inl SaveFailure \<and> disk s4 = disk s"
    using saveData_cases[OF sv] k2 by auto
  have res: "?res =
     (case r4 of
        Inl e \<Rightarrow> (Inl e, s4)
      | Inr u \<Rightarrow>
         (case find (isUser uid) (users (data s)) of
            None \<Rightarrow> (Inl TypeError, s4)
          | Some u \<Rightarrow> (Inr (name u, ?count), s4)))"
    by (simp only: deleteMember_unfold[OF g] sv prod.case)
  have snd_res: "snd ?res = s4"
    by (simp add: res split: sum.splits option.splits)
  have dres: "data (snd ?res) = ?d3" by (simp add: snd_res d4)
  have rot: "rotations (data (snd ?res))
        = filter (\<lambda>r. \<not> isFutureOf x (calls ?s2) groupId uid r) (rotations (data s))"
    by (simp add: dres)
  have part5: "dateNow x (calls ?s2) = dateNow x (calls s) \<longrightarrow>
          rotations (data (snd ?res))
            = filter (\<lambda>r. \<not> isFutureOf x (calls s) groupId uid r) (rotations (data s))
        \<and> ?count + length (rotations (data (snd ?res))) = length (rotations (data s))"
  proof
    assume "dateNow x (calls ?s2) = dateNow x (calls s)"
    then have same: "\<And>r. isFutureOf x (calls ?s2) groupId uid r = isFutureOf x (calls s) groupId uid r"
      by (rule isFutureOf_clock)
    have r5: "rotations (data (snd ?res))
            = filter (\<lambda>r. \<not> isFutureOf x (calls s) groupId uid r) (rotations (data s))"
      by (simp only: rot same)
    have "?count + length (rotations (data (snd ?res))) = length (rotations (data s))"
      by (simp only: r5 filter_count_compl)
    with r5 show "rotations (data (snd ?res))
            = filter (\<lambda>r. \<not> isFutureOf x (calls s) groupId uid r) (rotations (data s))
        \<and> ?count + length (rotations (data (snd ?res))) = length (rotations (data s))"
      by blast
  qed
  have part6: "writeFile x (calls ?s2) (data (snd ?res)) \<and> find (isUser uid) (users (data s)) = Some u \<longrightarrow>
          fst ?res = Inr (name u, ?count) \<and> disk (snd ?res) = data (snd ?res)"
  proof
    assume a: "writeFile x (calls ?s2) (data (snd ?res)) \<and> find (isUser uid) (users (data s)) = Some u"
    then have "writeFile x (calls ?s2) ?d3" by (simp only: dres)
    from sv_ok[OF this] a show "fst ?res = Inr (name u, ?count) \<and> disk (snd ?res) = data (snd ?res)"
      by (simp add: res d4)
  qed
  have part7: "writeFile x (calls ?s2) (data (snd ?res)) \<and> find (isUser uid) (users (data s)) = None \<longrightarrow>
          fst ?res = Inl TypeError \<and> disk (snd ?res) = data (snd ?res)"
  proof
    assume a: "writeFile x (calls ?s2) (data (snd ?res)) \<and> find (isUser uid) (users (data s)) = None"
    then have "writeFile x (calls ?s2) ?d3" by (simp only: dres)
    from sv_ok[OF this] a show "fst ?res = Inl TypeError \<and> disk (snd ?res) = data (snd ?res)"
      by (simp add: res d4)
  qed
  have part8: "\<not> writeFile x (calls ?s2) (data (snd ?res)) \<longrightarrow>
          fst ?res = Inl SaveFailure \<and> disk (snd ?res) = disk s"
  proof
    assume "\<not> writeFile x (calls ?s2) (data (snd ?res))"
    with dres have "\<not> writeFile x (calls ?s2) ?d3" by simp
    from sv_no[OF this] show "fst ?res = Inl SaveFailure \<and> disk (snd ?res) = disk s"
      by (simp add: res)
  qed
  have part9: "calls (snd ?res) = calls ?s2 @ [Save (data (snd ?res))]"
    by (simp only: dres) (simp add: snd_res c4)
  have "groups (data (snd ?res)) = withoutMember groupId uid (groups (data s))"
    "users (data (snd ?res)) = users (data s)"
    "skipWeeks (data (snd ?res)) = skipWeeks (data s)"
    by (simp_all add: dres)
  with rot part5 part6 part7 part8 part9 show ?thesis by blast
qed

lemma utcDateMs_examples:
  "utcDateMs ''2026-10-26'' = Some 1792972800000"
  "utcDateMs ''2026-11-02'' = Some 1793577600000"
  "utcDateMs ''2026-11-09'' = Some 1794182400000"
  by (simp_all add: utcDateMs_def parseIsoDate_def allDigits_def digitIn_def hexDigits_def
      digitsValue_def daysFromCivil_def)

lemma isFutureOf_noon:
  assumes "dateParse x = utcDateMs" "dateNow x cs = noon20261102"
  shows "isFutureOf x cs ''g1'' ''A'' rotPast = False"
    "isFutureOf x cs ''g1'' ''A'' rotToday = False"
    "isFutureOf x cs ''g1'' ''A'' rotNext = True"
    "isFutureOf x cs ''g1'' ''A'' rotOther = False"
  using assms
  by (simp_all add: isFutureOf_def notBefore_def rotPast_def rotToday_def rotNext_def rotOther_def
      rotOf_def utcDateMs_examples noon20261102_def)

lemma extNoDelete_simps:
  "eventsDelete (extNoDelete now) cs tk eventId = False"
  "writeFile (extNoDelete now) cs d = True"
  "dateNow (extNoDelete now) cs = now"
  "dateParse (extNoDelete now) = utcDateMs"
  by (simp_all add: extNoDelete_def extAt_def)

lemma spec_removed_noon:
  "spec_removedByRemoveMember (extAt noon20261102) noon20261102 ''g1'' ''A'' rotPast = False"
  "spec_removedByRemoveMember (extAt noon20261102) noon20261102 ''g1'' ''A'' rotToday = True"
  "spec_removedByRemoveMember (extAt noon20261102) noon20261102 ''g1'' ''A'' rotNext = True"
  "spec_removedByRemoveMember (extAt noon20261102) noon20261102 ''g1'' ''A'' rotOther = False"
  by (simp_all add: spec_removedByRemoveMember_def spec_onOrAfterToday_def extAt_simps
      rotPast_def rotToday_def rotNext_def rotOther_def rotOf_def utcDateMs_examples noon20261102_def)

text \<open>
  With a calendar that rejects every deletion, the removal goes through all the same.
\<close>

lemma remove_member_deletions_rejected:
  "fst (deleteMember (extNoDelete noon20261102) ''g1'' ''A''
         (stateOf (storeAt 0 [] usersABC [rotPast, rotToday, rotNext, rotOther])))
     = Inr (''A'', 1)
   \<and> rotations (data (snd (deleteMember (extNoDelete noon20261102) ''g1'' ''A''
         (stateOf (storeAt 0 [] usersABC [rotPast, rotToday, rotNext, rotOther])))))
     = [rotPast, rotToday, rotOther]
   \<and> groups (data (snd (deleteMember (extNoDelete noon20261102) ''g1'' ''A''
         (stateOf (storeAt 0 [] usersABC [rotPast, rotToday, rotNext, rotOther])))))
     = [(groupABC 0)\<lparr>members := [memberC, memberB]\<rparr>]"
proof -
  let ?x = "extNoDelete noon20261102"
  let ?s = "stateOf (storeAt 0 [] usersABC [rotPast, rotToday, rotNext, rotOther])"
  have g: "find (isGroup ''g1'') (groups (data ?s)) = Some (groupABC 0)"
    by (simp add: stateOf_sel storeAt_sel isGroup_groupABC)
  have us: "find (isUser ''A'') (users (data ?s)) = Some (userOf ''A'' (Some freshTokens))"
    by (simp add: stateOf_sel storeAt_sel find_usersABC)
  have fut: "\<And>cs. isFutureOf ?x cs ''g1'' ''A'' rotPast = False"
    "\<And>cs. isFutureOf ?x cs ''g1'' ''A'' rotToday = False"
    "\<And>cs. isFutureOf ?x cs ''g1'' ''A'' rotNext = True"
    "\<And>cs. isFutureOf ?x cs ''g1'' ''A'' rotOther = False"
    by (simp_all add: isFutureOf_noon extNoDelete_simps)
  note th = deleteMember_effect[OF g, where x = ?x and uid = "''A''" and u = "userOf ''A'' (Some freshTokens)"]
  have "fst (deleteMember ?x ''g1'' ''A'' ?s)
      = Inr (name (userOf ''A'' (Some freshTokens)),
             length (filter (isFutureOf ?x (calls ?s) ''g1'' ''A'') (rotations (data ?s))))"
    using th us by (simp add: extNoDelete_simps)
  then have r1: "fst (deleteMember ?x ''g1'' ''A'' ?s) = Inr (''A'', 1)"
    by (simp add: stateOf_sel storeAt_sel fut userOf_def)
  have "rotations (data (snd (deleteMember ?x ''g1'' ''A'' ?s)))
      = filter (\<lambda>r. \<not> isFutureOf ?x (calls (afterDeletes ?x ''g1'' ''A'' ?s)) ''g1'' ''A'' r) (rotations (data ?s))"
    using th by blast
  then have r2: "rotations (data (snd (deleteMember ?x ''g1'' ''A'' ?s))) = [rotPast, rotToday, rotOther]"
    by (simp add: stateOf_sel storeAt_sel fut)
  have "groups (data (snd (deleteMember ?x ''g1'' ''A'' ?s))) = withoutMember ''g1'' ''A'' (groups (data ?s))"
    using th by blast
  then have r3: "groups (data (snd (deleteMember ?x ''g1'' ''A'' ?s))) = [(groupABC 0)\<lparr>members := [memberC, memberB]\<rparr>]"
    by (simp add: withoutMember_def stateOf_sel storeAt_sel isGroup_groupABC groupABC_sel
        memberA_def memberB_def memberC_def)
  from r1 r2 r3 show ?thesis by blast
qed

text \<open>
  C7. The removal handler does not remove exactly the rotations whose period start is on
  or after today, and it does not always report the count. At noon UTC of Monday
  2026-11-02, member A of the group \<^verbatim>\<open>g1\<close> has rotations for the weeks starting
  2026-10-26, 2026-11-02 and 2026-11-09. The handler compares the instant of midnight of
  the week start with the current instant, so it keeps the rotation of the week that
  starts today and reports one removed rotation, where the rotations on or after today
  are two. For a member without a user record (the handler that adds members accepts
  any id), the handler removes the member and writes the file, and then fails with a
  \<open>TypeError\<close> instead of reporting the count.
\<close>

theorem remove_member_failing_inputs:
  "fst (deleteMember (extAt noon20261102) ''g1'' ''A''
         (stateOf (storeAt 0 [] usersABC [rotPast, rotToday, rotNext, rotOther])))
     = Inr (''A'', 1)
   \<and> rotations (data (snd (deleteMember (extAt noon20261102) ''g1'' ''A''
         (stateOf (storeAt 0 [] usersABC [rotPast, rotToday, rotNext, rotOther])))))
     = [rotPast, rotToday, rotOther]
   \<and> filter (spec_removedByRemoveMember (extAt noon20261102) noon20261102 ''g1'' ''A'')
        [rotPast, rotToday, rotNext, rotOther]
     = [rotToday, rotNext]
   \<and> fst (deleteMember (extAt noon20261102) ''g1'' ''A''
         (stateOf (storeAt 0 [] [userOf ''B'' (Some freshTokens)] [rotOther])))
     = Inl TypeError
   \<and> groups (data (snd (deleteMember (extAt noon20261102) ''g1'' ''A''
         (stateOf (storeAt 0 [] [userOf ''B'' (Some freshTokens)] [rotOther])))))
     = [(groupABC 0)\<lparr>members := [memberC, memberB]\<rparr>]
   \<and> rotations (data (snd (deleteMember (extAt noon20261102) ''g1'' ''A''
         (stateOf (storeAt 0 [] [userOf ''B'' (Some freshTokens)] [rotOther])))))
     = [rotOther]
   \<and> disk (snd (deleteMember (extAt noon20261102) ''g1'' ''A''
         (stateOf (storeAt 0 [] [userOf ''B'' (Some freshTokens)] [rotOther]))))
     = data (snd (deleteMember (extAt noon20261102) ''g1'' ''A''
         (stateOf (storeAt 0 [] [userOf ''B'' (Some freshTokens)] [rotOther]))))"
proof -
  let ?x = "extAt noon20261102"
  let ?s = "stateOf (storeAt 0 [] usersABC [rotPast, rotToday, rotNext, rotOther])"
  let ?t = "stateOf (storeAt 0 [] [userOf ''B'' (Some freshTokens)] [rotOther])"
  have fut: "\<And>cs. isFutureOf ?x cs ''g1'' ''A'' rotPast = False"
    "\<And>cs. isFutureOf ?x cs ''g1'' ''A'' rotToday = False"
    "\<And>cs. isFutureOf ?x cs ''g1'' ''A'' rotNext = True"
    "\<And>cs. isFutureOf ?x cs ''g1'' ''A'' rotOther = False"
    by (simp_all add: isFutureOf_noon extAt_simps)
  have gs: "find (isGroup ''g1'') (groups (data ?s)) = Some (groupABC 0)"
    by (simp add: stateOf_sel storeAt_sel isGroup_groupABC)
  have us: "find (isUser ''A'') (users (data ?s)) = Some (userOf ''A'' (Some freshTokens))"
    by (simp add: stateOf_sel storeAt_sel find_usersABC)
  note es = deleteMember_effect[OF gs, where x = ?x and uid = "''A''" and u = "userOf ''A'' (Some freshTokens)"]
  have "fst (deleteMember ?x ''g1'' ''A'' ?s)
      = Inr (name (userOf ''A'' (Some freshTokens)),
             length (filter (isFutureOf ?x (calls ?s) ''g1'' ''A'') (rotations (data ?s))))"
    using es us by (simp add: extAt_simps)
  then have r1: "fst (deleteMember ?x ''g1'' ''A'' ?s) = Inr (''A'', 1)"
    by (simp add: stateOf_sel storeAt_sel fut userOf_def)
  have "rotations (data (snd (deleteMember ?x ''g1'' ''A'' ?s)))
      = filter (\<lambda>r. \<not> isFutureOf ?x (calls (afterDeletes ?x ''g1'' ''A'' ?s)) ''g1'' ''A'' r) (rotations (data ?s))"
    using es by blast
  then have r2: "rotations (data (snd (deleteMember ?x ''g1'' ''A'' ?s))) = [rotPast, rotToday, rotOther]"
    by (simp add: stateOf_sel storeAt_sel fut)
  have r3: "filter (spec_removedByRemoveMember ?x noon20261102 ''g1'' ''A'') [rotPast, rotToday, rotNext, rotOther]
      = [rotToday, rotNext]"
    by (simp add: spec_removed_noon)
  have gt: "find (isGroup ''g1'') (groups (data ?t)) = Some (groupABC 0)"
    by (simp add: stateOf_sel storeAt_sel isGroup_groupABC)
  have ut: "find (isUser ''A'') (users (data ?t)) = None"
    by (simp add: stateOf_sel storeAt_sel userOf_def isUser_def)
  note et = deleteMember_effect[OF gt, where x = ?x and uid = "''A''"]
  have r4: "fst (deleteMember ?x ''g1'' ''A'' ?t) = Inl TypeError"
    and r7: "disk (snd (deleteMember ?x ''g1'' ''A'' ?t)) = data (snd (deleteMember ?x ''g1'' ''A'' ?t))"
    using et ut by (simp_all add: extAt_simps)
  have "groups (data (snd (deleteMember ?x ''g1'' ''A'' ?t))) = withoutMember ''g1'' ''A'' (groups (data ?t))"
    using et by blast
  then have r5: "groups (data (snd (deleteMember ?x ''g1'' ''A'' ?t))) = [(groupABC 0)\<lparr>members := [memberC, memberB]\<rparr>]"
    by (simp add: withoutMember_def stateOf_sel storeAt_sel isGroup_groupABC groupABC_sel
        memberA_def memberB_def memberC_def)
  have "rotations (data (snd (deleteMember ?x ''g1'' ''A'' ?t)))
      = filter (\<lambda>r. \<not> isFutureOf ?x (calls (afterDeletes ?x ''g1'' ''A'' ?t)) ''g1'' ''A'' r) (rotations (data ?t))"
    using et by blast
  then have r6: "rotations (data (snd (deleteMember ?x ''g1'' ''A'' ?t))) = [rotOther]"
    by (simp add: stateOf_sel storeAt_sel fut)
  from r1 r2 r3 r4 r5 r6 r7 show ?thesis by blast
qed

section \<open>Properties of the event times\<close>

lemma event_start_shape:
  "startDateTime (buildEvent g wk) = wk @ ''T'' @ timeOfDay (schedule g) @ '':00''
   \<and> endDateTime (buildEvent g wk) = wk @ ''T'' @ endHour g @ '':00:00''"
  by (simp add: buildEvent_def)

lemma event_reminders:
  "useDefault (buildEvent g wk) = False \<and> overrides (buildEvent g wk) = [(''email'', 1440), (''popup'', 60)]"
  by (simp add: buildEvent_def)

lemma event_ignores_dayOfWeek:
  "buildEvent (g\<lparr>schedule := (schedule g)\<lparr>dayOfWeek := d\<rparr>\<rparr>) wk = buildEvent g wk"
  by (simp add: buildEvent_def endHour_def)

lemma endHour_groupWed: "endHour groupWed = ''10''"
  by (simp add: endHour_def groupWed_def splitHead_def parseInt_def isWhite_def digitIn_def hexDigits_def
      numberToString_def padStart_def natToString.simps Let_def)

lemma spec_groupWed:
  "spec_eventStart groupWed ''2026-02-16'' = Some ''2026-02-18T09:30:00''"
  "spec_eventEnd groupWed ''2026-02-16'' = Some ''2026-02-18T10:30:00''"
  by (simp_all add: spec_eventStart_def spec_eventEnd_def spec_dayOffset_def groupWed_def
      addDaysIso_examples allDigits_def digitIn_def hexDigits_def digitsValue_def padStart_def
      natToString.simps Let_def)

lemma event_default_schedule:
  "startDateTime (demoEvent ''2026-02-16'') = ''2026-02-16T09:00:00''
   \<and> endDateTime (demoEvent ''2026-02-16'') = ''2026-02-16T10:00:00''"
  by (simp add: demoEvent_def event_start_shape endHour_def groupABC_def splitHead_def parseInt_def
      isWhite_def digitIn_def hexDigits_def numberToString_def padStart_def natToString.simps Let_def)

text \<open>
  C4. The event that \<open>createCalendarEvent\<close> builds does not depend on the group's day of
  week: its start is the group's time of day on the week start itself. Its reminders
  are one e-mail 1440 minutes and one pop-up 60 minutes before. For the group visiting
  on Wednesdays at 09:30 and the week of Monday 2026-02-16, the event starts on Monday
  at 09:30 and ends at 10:00 the same day, where the specification puts the start on
  Wednesday 2026-02-18 at 09:30 and the end at 10:30.
\<close>

theorem event_time_ignores_day_and_minutes:
  "buildEvent (g\<lparr>schedule := (schedule g)\<lparr>dayOfWeek := d\<rparr>\<rparr>) wk = buildEvent g wk
   \<and> startDateTime (buildEvent g wk) = wk @ ''T'' @ timeOfDay (schedule g) @ '':00''
   \<and> overrides (buildEvent g wk) = [(''email'', 1440), (''popup'', 60)]
   \<and> startDateTime (buildEvent groupWed ''2026-02-16'') = ''2026-02-16T09:30:00''
   \<and> endDateTime (buildEvent groupWed ''2026-02-16'') = ''2026-02-16T10:00:00''
   \<and> spec_eventStart groupWed ''2026-02-16'' = Some ''2026-02-18T09:30:00''
   \<and> spec_eventEnd groupWed ''2026-02-16'' = Some ''2026-02-18T10:30:00''"
proof -
  have "startDateTime (buildEvent groupWed ''2026-02-16'') = ''2026-02-16T09:30:00''"
    by (simp add: event_start_shape groupWed_def)
  moreover have "endDateTime (buildEvent groupWed ''2026-02-16'') = ''2026-02-16T10:00:00''"
    by (simp add: event_start_shape endHour_groupWed)
  ultimately show ?thesis
    using event_ignores_dayOfWeek[where g = g and d = d and wk = wk] event_start_shape[of g wk] event_reminders[of g wk] spec_groupWed
    by simp
qed

section \<open>The selector on a member without a user id\<close>

lemma eval_postMember_first:
  "postMember (extAt 2000) ''g1'' [] (stateOf (storeOf (groupOf [] 0) []))
     = (Inr (groupOf [memberE] 0),
        \<lparr>data = storeOf (groupOf [memberE] 0) [], disk = storeOf (groupOf [memberE] 0) [],
          calls = [Save (storeOf (groupOf [memberE] 0) [])]\<rparr>)"
  by (simp add: postMember_def saveData_def extAt_simps stateOf_def storeOf_def groupOf_def groupABC_def
      isGroup_def memberE_def Let_def)

lemma eval_postMember_second:
  "postMember (extAt 2000) ''g1'' ''B''
       \<lparr>data = storeOf (groupOf [memberE] 0) [], disk = storeOf (groupOf [memberE] 0) [],
         calls = [Save (storeOf (groupOf [memberE] 0) [])]\<rparr>
     = (Inr (groupOf [memberE, memberB] 0),
        \<lparr>data = storeOf (groupOf [memberE, memberB] 0) [], disk = storeOf (groupOf [memberE, memberB] 0) [],
          calls = [Save (storeOf (groupOf [memberE] 0) []), Save (storeOf (groupOf [memberE, memberB] 0) [])]\<rparr>)"
  by (simp add: postMember_def saveData_def extAt_simps storeOf_def groupOf_def groupABC_def
      isGroup_def memberE_def memberB_def Let_def)

lemma eval_getNext_EB:
  "getNextRotationAssignment (storeOf (groupOf [memberE, memberB] 0) []) ''g1'' ''2026-02-16''
     = (Inl AllSkipped, storeOf (groupOf [memberE, memberB] 0) [])"
proof -
  have sm: "sortedMembers (groupOf [memberE, memberB] 0) = [memberE, memberB]"
    by (simp add: sortedMembers_def groupOf_def memberE_def memberB_def)
  have "scanLoop [memberE, memberB] [] ''g1'' ''2026-02-16'' 0 0 = Inr (Some [], 0)"
    by (subst scanLoop.simps) (simp add: jsIndex_def jsRem_def hasSkip_def memberE_def)
  moreover have "find (isGroup ''g1'') (groups (storeOf (groupOf [memberE, memberB] 0) []))
      = Some (groupOf [memberE, memberB] 0)"
    by (simp add: storeOf_def groupOf_def groupABC_def isGroup_def)
  moreover have "members (groupOf [memberE, memberB] 0) \<noteq> []" "currentIndex (groupOf [memberE, memberB] 0) = 0"
    "skipWeeks (storeOf (groupOf [memberE, memberB] 0) []) = []"
    by (simp_all add: groupOf_def groupABC_def storeOf_def)
  ultimately show ?thesis
    by (simp add: getNextRotationAssignment_def sm falsyId_def)
qed

text \<open>
  C1. The selection does not return the first candidate without a skip week for every
  group. The handler that adds members accepts the empty user id; once that member is
  the candidate at the cursor, the scan stops at it, the test for "nobody found" takes
  the empty id for nobody, and the selection fails with \<open>AllSkipped\<close>, the store
  unchanged, although neither this member nor the next one has a skip week.
\<close>

theorem selectNext_empty_id_failing_input:
  "fst (postMember (extAt 2000) ''g1'' [] (stateOf (storeOf (groupOf [] 0) [])))
     = Inr (groupOf [memberE] 0)
   \<and> postMember (extAt 2000) ''g1'' ''B''
       (snd (postMember (extAt 2000) ''g1'' [] (stateOf (storeOf (groupOf [] 0) []))))
     = (Inr (groupOf [memberE, memberB] 0),
        \<lparr>data = storeOf (groupOf [memberE, memberB] 0) [], disk = storeOf (groupOf [memberE, memberB] 0) [],
          calls = [Save (storeOf (groupOf [memberE] 0) []), Save (storeOf (groupOf [memberE, memberB] 0) [])]\<rparr>)
   \<and> sortedMembers (groupOf [memberE, memberB] 0) = [memberE, memberB]
   \<and> \<not> hasSkip [] (userId memberE) ''g1'' ''2026-02-16''
   \<and> \<not> hasSkip [] (userId memberB) ''g1'' ''2026-02-16''
   \<and> getNextRotationAssignment (storeOf (groupOf [memberE, memberB] 0) []) ''g1'' ''2026-02-16''
     = (Inl AllSkipped, storeOf (groupOf [memberE, memberB] 0) [])"
proof -
  have "sortedMembers (groupOf [memberE, memberB] 0) = [memberE, memberB]"
    by (simp add: sortedMembers_def groupOf_def memberE_def memberB_def)
  then show ?thesis
    by (simp add: eval_postMember_first eval_postMember_second eval_getNext_EB hasSkip_Nil)
qed

text \<open>
  A negative cursor that is not a multiple of the member count reads outside the array
  and changes nothing; the server never writes such a cursor.
\<close>

lemma getNext_negative_cursor:
  "getNextRotationAssignment (storeABC (- 1) []) ''g1'' ''2026-02-16'' = (Inl TypeError, storeABC (- 1) [])"
proof -
  have "scanLoop [memberA, memberB, memberC] [] ''g1'' ''2026-02-16'' (- 1) 0 = Inl TypeError"
    by (subst scanLoop.simps) (simp add: jsIndex_def jsRem_def)
  moreover have "find (isGroup ''g1'') (groups (storeABC (- 1) [])) = Some (groupABC (- 1))"
    by (simp add: storeABC_def isGroup_groupABC)
  moreover have "skipWeeks (storeABC (- 1) []) = []" by (simp add: storeABC_def)
  ultimately show ?thesis
    by (simp add: getNextRotationAssignment_def sortedMembers_groupABC groupABC_sel)
qed

end
